theory Spec2Isabelle
  imports Complex_Main
begin

section \<open>Python values of the trading bot\<close>

text \<open>
  The development follows \<^verbatim>\<open>Last_version.py\<close> (called revision 0 below) and
  \<^verbatim>\<open>Last_version1.py\<close> (revision 1). Where the two files differ in a function the
  claims are about, both variants are embedded; the name of the revision 1 variant ends
  in \<^verbatim>\<open>1\<close>.

  A character of a string is the Unicode code point of the same number, from 0 to 255;
  text with code points above 255 is outside the model. Python floats are modelled as
  exact reals: rounding is not part of the model.
\<close>

datatype py_exception =
    Exception string
  | ValueError string
  | NameError string
  | AttributeError
  | IndexError
  | TypeError
  | RetryError

text \<open>
  \<^verbatim>\<open>str(exc)\<close>: the message the exception was built with. A \<^verbatim>\<open>NameError\<close> is
  represented by the name that is not defined.
\<close>

fun str_of :: "py_exception \<Rightarrow> string" where
  "str_of (Exception m) = m"
| "str_of (ValueError m) = m"
| "str_of (NameError m) = m"
| "str_of AttributeError = []"
| "str_of IndexError = []"
| "str_of TypeError = []"
| "str_of RetryError = []"

text \<open>\<^verbatim>\<open>class ActionType(Enum)\<close>: a plain enumeration, whose members carry a string value.\<close>

datatype ActionType = BUY | SELL | CLOSE

fun enum_value :: "ActionType \<Rightarrow> string" where
  "enum_value BUY = ''BUY''"
| "enum_value SELL = ''SELL''"
| "enum_value CLOSE = ''CLOSE''"

text \<open>
  The two kinds of objects that \<^verbatim>\<open>execute_order\<close> compares with \<^verbatim>\<open>==\<close>. A member
  of a plain \<^verbatim>\<open>Enum\<close> is equal to itself only, never to a string: Python's \<^verbatim>\<open>==\<close> on
  these objects is equality of the datatype.
\<close>

datatype py_object = Str string | EnumMember ActionType

section \<open>Strings and the regular expression of the webhook\<close>

text \<open>
  The patterns and strings of the program are \<^verbatim>\<open>str\<close>, so \<^verbatim>\<open>re\<close> and \<^verbatim>\<open>str.lower\<close> follow
  Unicode. On the code points 0 to 255:
  \<^item> \<^verbatim>\<open>\d\<close> is a decimal digit, 0 to 9 only;
  \<^item> \<^verbatim>\<open>\w\<close> is an alphanumeric character (\<^verbatim>\<open>str.isalnum\<close>) or the underscore; beside the
    ASCII digits and letters, the alphanumeric characters are 170, 178, 179, 181, 185, 186,
    188 to 190, 192 to 214, 216 to 246 and 248 to 255;
  \<^item> \<^verbatim>\<open>.\<close> is any character but the newline;
  \<^item> \<^verbatim>\<open>str.lower\<close> adds 32 to the code points 65 to 90, 192 to 214 and 216 to 222, and
    leaves the others as they are.
\<close>

definition is_digit :: "char \<Rightarrow> bool" where
  "is_digit c = (let n = (of_char c :: nat) in 48 \<le> n \<and> n \<le> 57)"

definition is_alnum :: "char \<Rightarrow> bool" where
  "is_alnum c =
     (let n = (of_char c :: nat) in
        (48 \<le> n \<and> n \<le> 57) \<or> (65 \<le> n \<and> n \<le> 90) \<or> (97 \<le> n \<and> n \<le> 122) \<or>
        n = 170 \<or> n = 178 \<or> n = 179 \<or> n = 181 \<or> n = 185 \<or> n = 186 \<or>
        (188 \<le> n \<and> n \<le> 190) \<or> (192 \<le> n \<and> n \<le> 214) \<or>
        (216 \<le> n \<and> n \<le> 246) \<or> (248 \<le> n \<and> n \<le> 255))"

text \<open>\<^verbatim>\<open>\w\<close>, \<^verbatim>\<open>[\w/]\<close> and \<^verbatim>\<open>.\<close>.\<close>

definition is_word :: "char \<Rightarrow> bool" where
  "is_word c = (is_alnum c \<or> c = CHR ''_'')"

definition is_word_or_slash :: "char \<Rightarrow> bool" where
  "is_word_or_slash c = (is_word c \<or> c = CHR ''/'')"

definition is_dot :: "char \<Rightarrow> bool" where
  "is_dot c = (c \<noteq> CHR 0x0A)"

text \<open>The characters that \<^verbatim>\<open>str.lower\<close> changes.\<close>

definition is_upper :: "char \<Rightarrow> bool" where
  "is_upper c =
     (let n = (of_char c :: nat) in
        (65 \<le> n \<and> n \<le> 90) \<or> (192 \<le> n \<and> n \<le> 214) \<or> (216 \<le> n \<and> n \<le> 222))"

definition lower_char :: "char \<Rightarrow> char" where
  "lower_char c = (if is_upper c then char_of ((of_char c :: nat) + 32) else c)"

definition lower :: "string \<Rightarrow> string" where
  "lower s = map lower_char s"

text \<open>
  Python's \<^verbatim>\<open>re\<close> is a backtracking matcher. Each construct of the pattern is a function
  from the text still to be matched and a continuation (the rest of the pattern) to the
  first successful result in backtracking order: a greedy repetition tries the longest
  run first and gives characters back one at a time while the continuation fails.
\<close>

type_synonym 'r matcher = "string \<Rightarrow> 'r option"

fun rx_lit :: "string \<Rightarrow> 'r matcher \<Rightarrow> 'r matcher" where
  "rx_lit [] k s = k s"
| "rx_lit (p # ps) k [] = None"
| "rx_lit (p # ps) k (c # cs) = (if p = c then rx_lit ps k cs else None)"

fun rx_star_from :: "(char \<Rightarrow> bool) \<Rightarrow> (string \<Rightarrow> 'r matcher) \<Rightarrow> string \<Rightarrow> 'r matcher" where
  "rx_star_from cls k acc [] = k acc []"
| "rx_star_from cls k acc (c # cs) =
     (if cls c
      then (case rx_star_from cls k (acc @ [c]) cs of
              Some r \<Rightarrow> Some r
            | None \<Rightarrow> k acc (c # cs))
      else k acc (c # cs))"

text \<open>\<^verbatim>\<open>(cls*)\<close> and \<^verbatim>\<open>(cls+)\<close> as groups: the continuation receives the text of the group.\<close>

definition rx_star :: "(char \<Rightarrow> bool) \<Rightarrow> (string \<Rightarrow> 'r matcher) \<Rightarrow> 'r matcher" where
  "rx_star cls k s = rx_star_from cls k [] s"

definition rx_plus :: "(char \<Rightarrow> bool) \<Rightarrow> (string \<Rightarrow> 'r matcher) \<Rightarrow> 'r matcher" where
  "rx_plus cls k s =
     (case s of
        [] \<Rightarrow> None
      | c # cs \<Rightarrow> if cls c then rx_star_from cls k [c] cs else None)"

text \<open>\<^verbatim>\<open>(g)?\<close>: the group if it matches (and the rest does), else no group (\<^verbatim>\<open>None\<close>).\<close>

definition rx_opt ::
  "((string \<Rightarrow> 'r matcher) \<Rightarrow> 'r matcher) \<Rightarrow> (string option \<Rightarrow> 'r matcher) \<Rightarrow> 'r matcher" where
  "rx_opt g k s =
     (case g (\<lambda>txt. k (Some txt)) s of
        Some r \<Rightarrow> Some r
      | None \<Rightarrow> k None s)"

text \<open>\<^verbatim>\<open>\w+_\d+\<close>, the body of the fifth group.\<close>

definition word_digits :: "(string \<Rightarrow> 'r matcher) \<Rightarrow> 'r matcher" where
  "word_digits k =
     rx_plus is_word (\<lambda>w. rx_lit ''_'' (rx_plus is_digit (\<lambda>d. k (w @ ''_'' @ d))))"

section \<open>TradingSignal\<close>

text \<open>
  The fields hold what \<^verbatim>\<open>match.groups()\<close> holds: strings, and \<^verbatim>\<open>None\<close> for the
  fifth group when it took no part in the match.
\<close>

record TradingSignal =
  action :: string
  symbol :: string
  volume :: string
  open_position :: string
  position_closed :: "string option"

text \<open>
  \<^verbatim>\<open>re.match(pattern, webhook_data)\<close> with the pattern
  \<^verbatim>\<open>action=(\w+);symbol=([\w/]+);volume=(.*);open_position=(.*);position_closed=(\w+_\d+)?\<close>:
  anchored at the start of the text, not at its end.
\<close>

definition re_match :: "string \<Rightarrow> TradingSignal option" where
  "re_match =
     rx_lit ''action='' (rx_plus is_word (\<lambda>g1.
     rx_lit '';symbol='' (rx_plus is_word_or_slash (\<lambda>g2.
     rx_lit '';volume='' (rx_star is_dot (\<lambda>g3.
     rx_lit '';open_position='' (rx_star is_dot (\<lambda>g4.
     rx_lit '';position_closed='' (rx_opt word_digits (\<lambda>g5 rest.
       Some \<lparr>action = g1, symbol = g2, volume = g3, open_position = g4,
              position_closed = g5\<rparr>))))))))))"

text \<open>
  \<^verbatim>\<open>from_webhook\<close> raises \<^verbatim>\<open>ValueError("Invalid webhook data")\<close> when there is no
  match. (It also writes one log record, which no caller reads.)
\<close>

definition from_webhook :: "string \<Rightarrow> py_exception + TradingSignal" where
  "from_webhook webhook_data =
     (case re_match webhook_data of
        None \<Rightarrow> Inl (ValueError ''Invalid webhook data'')
      | Some groups \<Rightarrow> Inr groups)"

definition normalize_action :: "TradingSignal \<Rightarrow> TradingSignal" where
  "normalize_action self =
     (if lower (action self) \<in> set [''enter_long'', ''buy''] then self\<lparr>action := ''BUY''\<rparr>
      else if lower (action self) \<in> set [''enter_short'', ''sell''] then self\<lparr>action := ''SELL''\<rparr>
      else self)"

text \<open>
  The grammar of the webhook read as a description of texts, to compare the matcher with:
  a payload conforms when it starts with \<^verbatim>\<open>action=\<close>, a non-empty word, \<^verbatim>\<open>;symbol=\<close>, a
  non-empty run of word characters and slashes, \<^verbatim>\<open>;volume=\<close>, any text within the line,
  \<^verbatim>\<open>;open_position=\<close>, any text within the line, and \<^verbatim>\<open>;position_closed=\<close>. What follows
  is free: the value of \<^verbatim>\<open>position_closed\<close> is optional and the pattern is not anchored at
  the end.
\<close>

definition matches_grammar :: "string \<Rightarrow> bool" where
  "matches_grammar s =
     (\<exists>a sy v tag rest.
        s = ''action='' @ a @ '';symbol='' @ sy @ '';volume='' @ v @ '';open_position='' @ tag
              @ '';position_closed='' @ rest \<and>
        a \<noteq> [] \<and> list_all is_word a \<and>
        sy \<noteq> [] \<and> list_all is_word_or_slash sy \<and>
        list_all is_dot v \<and> list_all is_dot tag)"

section \<open>The broker gateway\<close>

text \<open>
  The MetaTrader 5 module is outside the repository. Its state is a value of an arbitrary
  type \<open>'b\<close>, and the calls the bot makes are the fields of \<open>env\<close>, together with
  Python's \<^verbatim>\<open>float\<close>, the local clock and the values read from the configuration
  file. Only \<^verbatim>\<open>order_send\<close> changes the state of the gateway; what it changes is up to the
  gateway.
\<close>

record tick =
  bid :: real
  ask :: real

datatype position_type = POSITION_TYPE_BUY | POSITION_TYPE_SELL

record TradePosition =
  pos_ticket :: int
  pos_symbol :: string
  pos_type :: position_type
  pos_volume :: real
  pos_comment :: string

datatype order_type = ORDER_TYPE_BUY | ORDER_TYPE_SELL

datatype order_filling = ORDER_FILLING_FOK | ORDER_FILLING_IOC

text \<open>The comment of a request: the tag of the signal, or \<^verbatim>\<open>f"closed {position.ticket}"\<close>.\<close>

datatype order_comment = Tag string | Closed int

text \<open>
  The dictionary passed to \<^verbatim>\<open>order_send\<close>. Every request of the bot has
  \<^verbatim>\<open>"action": TRADE_ACTION_DEAL\<close> and \<^verbatim>\<open>"type_time": ORDER_TIME_GTC\<close>; these two keys are left
  out. A closing request has no \<^verbatim>\<open>"sl"\<close> and \<^verbatim>\<open>"tp"\<close>, an entry request no \<^verbatim>\<open>"position"\<close>.
\<close>

record trade_request =
  req_symbol :: string
  req_volume :: real
  req_type :: order_type
  req_price :: real
  req_sl :: "real option"
  req_tp :: "real option"
  req_deviation :: int
  req_magic :: int
  req_comment :: order_comment
  req_type_filling :: order_filling
  req_position :: "int option"

definition TRADE_RETCODE_DONE :: int where
  "TRADE_RETCODE_DONE = 10009"

datatype day = Monday | Tuesday | Wednesday | Thursday | Friday | Saturday | Sunday

text \<open>\<^verbatim>\<open>datetime.weekday()\<close>: Monday is 0 and Sunday is 6.\<close>

fun weekday :: "day \<Rightarrow> nat" where
  "weekday Monday = 0"
| "weekday Tuesday = 1"
| "weekday Wednesday = 2"
| "weekday Thursday = 3"
| "weekday Friday = 4"
| "weekday Saturday = 5"
| "weekday Sunday = 6"

record 'b env =
  symbol_info_tick :: "'b \<Rightarrow> string \<Rightarrow> tick option"
  symbol_info_point :: "'b \<Rightarrow> string \<Rightarrow> real option"
  positions_get :: "'b \<Rightarrow> TradePosition list option"
  order_send :: "'b \<Rightarrow> trade_request \<Rightarrow> int option \<times> 'b"
  beijing_time :: "'b \<Rightarrow> day \<times> nat"
  py_float :: "string \<Rightarrow> real option"
  stop_loss_pips :: real
  take_profit_pips :: real
  self_deviation :: int
  self_magic_number :: int

text \<open>
  \<^item> \<open>symbol_info_tick\<close>, \<open>symbol_info_point\<close> (\<^verbatim>\<open>mt5.symbol_info(s).point\<close>) and
    \<open>positions_get\<close> answer \<^verbatim>\<open>None\<close> when the gateway has nothing to return;
  \<^item> \<open>order_send\<close> answers the \<^verbatim>\<open>retcode\<close> of its result, or \<^verbatim>\<open>None\<close>;
  \<^item> \<open>beijing_time\<close> is \<^verbatim>\<open>datetime.now()\<close> in the zone Asia/Shanghai, as the day of the week
    and the hour;
  \<^item> \<open>py_float\<close> is Python's \<^verbatim>\<open>float\<close> on strings, \<^verbatim>\<open>None\<close> where it raises;
  \<^item> \<open>stop_loss_pips\<close> and \<open>take_profit_pips\<close> are the module globals of revision 0,
    \<open>self_deviation\<close> and \<open>self_magic_number\<close> the attributes of the bot in revision 1.
\<close>

text \<open>
  A record of the log, one constructor for each \<^verbatim>\<open>logging.info\<close> and \<^verbatim>\<open>logging.error\<close>
  call of the bot. The root logger is configured at level \<^verbatim>\<open>INFO\<close>: the \<^verbatim>\<open>logging.debug\<close>
  calls (and \<^verbatim>\<open>after_log\<close> of the retry decorator, at level \<^verbatim>\<open>DEBUG\<close>) write nothing.
\<close>

datatype log_record =
    Info_Executing_order TradingSignal
  | Error_Action_is_not_supported
  | Error_Now_is_not_trading_time
  | Error_Correct_open_position_is_required
  | Error_An_error_occurred py_exception
  | Error_Trade_failed_retcode int
  | Error_last_error
  | Info_Enter_long_processed string
  | Info_Enter_short_processed string
  | Error_Unable_to_retrieve_positions
  | Error_Position_does_not_exist string
  | Error_Order_send_result_is_None
  | Info_Close_processed string

text \<open>
  The state the bot acts on: the gateway, the requests passed to \<^verbatim>\<open>order_send\<close> so far
  (oldest first) and the log.
\<close>

record 'b world =
  broker :: 'b
  sent :: "trade_request list"
  logged :: "log_record list"

definition logging :: "log_record list \<Rightarrow> 'b world \<Rightarrow> 'b world" where
  "logging rs w = w\<lparr>logged := logged w @ rs\<rparr>"

text \<open>\<^verbatim>\<open>mt5.order_send(trade_request)\<close>, remembering the request.\<close>

definition mt5_order_send :: "'b env \<Rightarrow> trade_request \<Rightarrow> 'b world \<Rightarrow> int option \<times> 'b world" where
  "mt5_order_send env request w =
     (case order_send env (broker w) request of
        (trade_result, b') \<Rightarrow> (trade_result, w\<lparr>broker := b', sent := sent w @ [request]\<rparr>))"

section \<open>The retry decorator\<close>

text \<open>What a call of a decorated method gives: a returned value or a raised exception.\<close>

datatype py_value = PyNone | OrderSendResult int | ExceptionObject py_exception

datatype outcome = Returned py_value | Raised py_exception

fun starts_with :: "string \<Rightarrow> string \<Rightarrow> bool" where
  "starts_with [] s = True"
| "starts_with (p # ps) [] = False"
| "starts_with (p # ps) (c # cs) = (p = c \<and> starts_with ps cs)"

text \<open>\<^verbatim>\<open>needle in hay\<close> on strings.\<close>

fun str_contains :: "string \<Rightarrow> string \<Rightarrow> bool" where
  "str_contains needle [] = starts_with needle []"
| "str_contains needle (c # cs) = (starts_with needle (c # cs) \<or> str_contains needle cs)"

fun is_requote_error :: "py_value \<Rightarrow> bool" where
  "is_requote_error (ExceptionObject e) = str_contains ''Trade failed'' (str_of e)"
| "is_requote_error PyNone = False"
| "is_requote_error (OrderSendResult retcode) = False"

text \<open>
  The decorator is
  \<^verbatim>\<open>@retry(retry=retry_if_result(is_requote_error), stop=stop_after_attempt(5), wait=wait_fixed(1), reraise=True)\<close>
  of the \<^verbatim>\<open>tenacity\<close> library.
  \<^item> \<^verbatim>\<open>retry_if_result(p)\<close> asks for another attempt when the attempt \<^emph>\<open>returned\<close> a value
    and \<open>p\<close> holds of it; an attempt that raised is not a result, and is never retried by it.
  \<^item> \<^verbatim>\<open>stop_after_attempt(n)\<close> stops when the number of the attempt just made is at least \<open>n\<close>.
  \<^item> With \<^verbatim>\<open>reraise=True\<close>, stopping raises the exception of the last attempt if it raised,
    and \<^verbatim>\<open>RetryError\<close> otherwise.
  The wait of one second between attempts is not modelled.
\<close>

fun retry_if_result :: "(py_value \<Rightarrow> bool) \<Rightarrow> outcome \<Rightarrow> bool" where
  "retry_if_result p (Returned v) = p v"
| "retry_if_result p (Raised e) = False"

definition stop_after_attempt :: "nat \<Rightarrow> nat \<Rightarrow> bool" where
  "stop_after_attempt max_attempt_number attempt_number = (attempt_number \<ge> max_attempt_number)"

fun reraise :: "outcome \<Rightarrow> py_exception" where
  "reraise (Raised e) = e"
| "reraise (Returned v) = RetryError"

function retrying :: "nat \<Rightarrow> ('w \<Rightarrow> outcome \<times> 'w) \<Rightarrow> 'w \<Rightarrow> outcome \<times> 'w" where
  "retrying attempt_number fn w =
     (case fn w of
        (out, w') \<Rightarrow>
          if \<not> retry_if_result is_requote_error out then (out, w')
          else if stop_after_attempt 5 attempt_number then (Raised (reraise out), w')
          else retrying (attempt_number + 1) fn w')"
  by pat_completeness auto
termination
  by (relation "measure (\<lambda>(attempt_number, fn, w). 5 - attempt_number)")
     (auto simp: stop_after_attempt_def)

declare retrying.simps [simp del]

text \<open>The decorated method: the first attempt has number 1.\<close>

definition retry :: "('w \<Rightarrow> outcome \<times> 'w) \<Rightarrow> 'w \<Rightarrow> outcome \<times> 'w" where
  "retry fn w = retrying 1 fn w"

text \<open>Two statements in sequence: an exception raised by the first skips the second.\<close>

definition and_then ::
  "outcome \<times> 'w \<Rightarrow> ('w \<Rightarrow> outcome \<times> 'w) \<Rightarrow> outcome \<times> 'w" where
  "and_then r f = (case r of (Raised e, w) \<Rightarrow> (Raised e, w) | (Returned v, w) \<Rightarrow> f w)"

section \<open>Entering a position\<close>

text \<open>
  What \<^verbatim>\<open>enter_long\<close> and \<^verbatim>\<open>enter_short\<close> do with the result of \<^verbatim>\<open>order_send\<close>:
  \<^verbatim>\<open>trade_result.retcode\<close> raises \<^verbatim>\<open>AttributeError\<close> on \<^verbatim>\<open>None\<close>; a retcode other than
  \<^verbatim>\<open>TRADE_RETCODE_DONE\<close> is logged and raised as \<^verbatim>\<open>Exception("Trade failed")\<close>.
\<close>

definition entry_result ::
  "log_record \<Rightarrow> int option \<times> 'b world \<Rightarrow> outcome \<times> 'b world" where
  "entry_result processed r =
     (case r of
        (None, w) \<Rightarrow> (Raised AttributeError, w)
      | (Some retcode, w) \<Rightarrow>
          if retcode \<noteq> TRADE_RETCODE_DONE
          then (Raised (Exception ''Trade failed''),
                logging [Error_Trade_failed_retcode retcode, Error_last_error] w)
          else (Returned (OrderSendResult retcode), logging [processed] w))"

text \<open>
  The body of \<^verbatim>\<open>enter_long\<close> in revision 0, in the order Python evaluates it: the tick
  and its \<^verbatim>\<open>ask\<close>, the point, then the entries of the dictionary (\<^verbatim>\<open>float(signal.volume)\<close>
  among them), then \<^verbatim>\<open>order_send\<close>.
\<close>

definition enter_long_body :: "'b env \<Rightarrow> TradingSignal \<Rightarrow> 'b world \<Rightarrow> outcome \<times> 'b world" where
  "enter_long_body env signal w =
     (case symbol_info_tick env (broker w) (symbol signal) of
        None \<Rightarrow> (Raised AttributeError, w)
      | Some t \<Rightarrow>
     (case symbol_info_point env (broker w) (symbol signal) of
        None \<Rightarrow> (Raised AttributeError, w)
      | Some point \<Rightarrow>
     (case py_float env (volume signal) of
        None \<Rightarrow> (Raised (ValueError ''could not convert string to float''), w)
      | Some v \<Rightarrow>
          entry_result (Info_Enter_long_processed (open_position signal))
            (mt5_order_send env
               \<lparr>req_symbol = symbol signal,
                req_volume = v,
                req_type = ORDER_TYPE_BUY,
                req_price = ask t,
                req_sl = Some (ask t - stop_loss_pips env * point),
                req_tp = Some (ask t + take_profit_pips env * point),
                req_deviation = 20,
                req_magic = 234000,
                req_comment = Tag (open_position signal),
                req_type_filling = ORDER_FILLING_IOC,
                req_position = None\<rparr> w))))"

definition enter_short_body :: "'b env \<Rightarrow> TradingSignal \<Rightarrow> 'b world \<Rightarrow> outcome \<times> 'b world" where
  "enter_short_body env signal w =
     (case symbol_info_tick env (broker w) (symbol signal) of
        None \<Rightarrow> (Raised AttributeError, w)
      | Some t \<Rightarrow>
     (case symbol_info_point env (broker w) (symbol signal) of
        None \<Rightarrow> (Raised AttributeError, w)
      | Some point \<Rightarrow>
     (case py_float env (volume signal) of
        None \<Rightarrow> (Raised (ValueError ''could not convert string to float''), w)
      | Some v \<Rightarrow>
          entry_result (Info_Enter_short_processed (open_position signal))
            (mt5_order_send env
               \<lparr>req_symbol = symbol signal,
                req_volume = v,
                req_type = ORDER_TYPE_SELL,
                req_price = bid t,
                req_sl = Some (bid t + stop_loss_pips env * point),
                req_tp = Some (bid t - take_profit_pips env * point),
                req_deviation = 20,
                req_magic = 234000,
                req_comment = Tag (open_position signal),
                req_type_filling = ORDER_FILLING_IOC,
                req_position = None\<rparr> w))))"

definition enter_long :: "'b env \<Rightarrow> TradingSignal \<Rightarrow> 'b world \<Rightarrow> outcome \<times> 'b world" where
  "enter_long env signal = retry (enter_long_body env signal)"

definition enter_short :: "'b env \<Rightarrow> TradingSignal \<Rightarrow> 'b world \<Rightarrow> outcome \<times> 'b world" where
  "enter_short env signal = retry (enter_short_body env signal)"

text \<open>
  Revision 1 has no module globals \<^verbatim>\<open>stop_loss_pips\<close> and \<^verbatim>\<open>take_profit_pips\<close> (the
  configuration is read into local variables of \<^verbatim>\<open>main\<close>), and \<^verbatim>\<open>enter_long\<close> and
  \<^verbatim>\<open>enter_short\<close> still read them: building the dictionary raises \<^verbatim>\<open>NameError\<close> at the key
  \<^verbatim>\<open>"sl"\<close>, after \<^verbatim>\<open>"volume"\<close> has been evaluated and before \<^verbatim>\<open>order_send\<close> is reached.
  Both bodies are the same up to that point.
\<close>

definition enter_body1 :: "'b env \<Rightarrow> TradingSignal \<Rightarrow> 'b world \<Rightarrow> outcome \<times> 'b world" where
  "enter_body1 env signal w =
     (case symbol_info_tick env (broker w) (symbol signal) of
        None \<Rightarrow> (Raised AttributeError, w)
      | Some t \<Rightarrow>
     (case symbol_info_point env (broker w) (symbol signal) of
        None \<Rightarrow> (Raised AttributeError, w)
      | Some point \<Rightarrow>
     (case py_float env (volume signal) of
        None \<Rightarrow> (Raised (ValueError ''could not convert string to float''), w)
      | Some v \<Rightarrow> (Raised (NameError ''stop_loss_pips''), w))))"

definition enter_long1 :: "'b env \<Rightarrow> TradingSignal \<Rightarrow> 'b world \<Rightarrow> outcome \<times> 'b world" where
  "enter_long1 env signal = retry (enter_body1 env signal)"

definition enter_short1 :: "'b env \<Rightarrow> TradingSignal \<Rightarrow> 'b world \<Rightarrow> outcome \<times> 'b world" where
  "enter_short1 env signal = retry (enter_body1 env signal)"

section \<open>Closing positions\<close>

text \<open>
  The request that closes a position: the opposite side, at the bid for a long position
  and at the ask for a short one, the volume and the ticket of the position. The two
  revisions differ in \<^verbatim>\<open>"deviation"\<close> and \<^verbatim>\<open>"magic"\<close> only.
\<close>

definition closing_request :: "int \<Rightarrow> int \<Rightarrow> TradePosition \<Rightarrow> tick \<Rightarrow> trade_request" where
  "closing_request deviation magic p t =
     \<lparr>req_symbol = pos_symbol p,
      req_volume = pos_volume p,
      req_type = (if pos_type p = POSITION_TYPE_BUY then ORDER_TYPE_SELL else ORDER_TYPE_BUY),
      req_price = (if pos_type p = POSITION_TYPE_BUY then bid t else ask t),
      req_sl = None,
      req_tp = None,
      req_deviation = deviation,
      req_magic = magic,
      req_comment = Closed (pos_ticket p),
      req_type_filling = ORDER_FILLING_FOK,
      req_position = Some (pos_ticket p)\<rparr>"

text \<open>The body of the second loop of \<^verbatim>\<open>close_position_by_comment\<close>, for a position that matches.\<close>

definition close_one ::
  "int \<Rightarrow> int \<Rightarrow> 'b env \<Rightarrow> string \<Rightarrow> TradePosition \<Rightarrow> 'b world \<Rightarrow> outcome \<times> 'b world" where
  "close_one deviation magic env tag p w =
     (case symbol_info_tick env (broker w) (pos_symbol p) of
        None \<Rightarrow> (Raised AttributeError, w)
      | Some t \<Rightarrow>
     (case symbol_info_point env (broker w) (pos_symbol p) of
        None \<Rightarrow> (Raised AttributeError, w)
      | Some point \<Rightarrow>
     (case mt5_order_send env (closing_request deviation magic p t) w of
        (None, w') \<Rightarrow> (Returned PyNone, logging [Error_Order_send_result_is_None] w')
      | (Some retcode, w') \<Rightarrow>
          if retcode \<noteq> TRADE_RETCODE_DONE
          then (Raised (Exception ''Trade failed''),
                logging [Error_Trade_failed_retcode retcode, Error_last_error] w')
          else (Returned (OrderSendResult retcode), logging [Info_Close_processed tag] w'))))"

text \<open>
  The second loop: every path through the body of the \<^verbatim>\<open>if\<close> ends in \<^verbatim>\<open>return\<close> or
  \<^verbatim>\<open>raise\<close>, so the loop ends at the first position that matches. Falling off the end of
  the loop returns \<^verbatim>\<open>None\<close>.
\<close>

fun close_loop ::
  "int \<Rightarrow> int \<Rightarrow> 'b env \<Rightarrow> string \<Rightarrow> TradePosition list \<Rightarrow> 'b world \<Rightarrow> outcome \<times> 'b world" where
  "close_loop deviation magic env tag [] w = (Returned PyNone, w)"
| "close_loop deviation magic env tag (p # ps) w =
     (if pos_comment p = tag then close_one deviation magic env tag p w
      else close_loop deviation magic env tag ps w)"

definition close_body ::
  "int \<Rightarrow> int \<Rightarrow> 'b env \<Rightarrow> string \<Rightarrow> 'b world \<Rightarrow> outcome \<times> 'b world" where
  "close_body deviation magic env tag w =
     (case positions_get env (broker w) of
        None \<Rightarrow> (Returned PyNone, logging [Error_Unable_to_retrieve_positions] w)
      | Some positions \<Rightarrow>
     (case find (\<lambda>p. pos_comment p = tag) positions of
        None \<Rightarrow> (Returned PyNone, logging [Error_Position_does_not_exist tag] w)
      | Some position_info \<Rightarrow> close_loop deviation magic env tag positions w))"

definition close_position_by_comment :: "'b env \<Rightarrow> string \<Rightarrow> 'b world \<Rightarrow> outcome \<times> 'b world" where
  "close_position_by_comment env tag = retry (close_body 30 234000 env tag)"

definition close_position_by_comment1 :: "'b env \<Rightarrow> string \<Rightarrow> 'b world \<Rightarrow> outcome \<times> 'b world" where
  "close_position_by_comment1 env tag =
     retry (close_body (self_deviation env + 10) (self_magic_number env) env tag)"

text \<open>
  \<^verbatim>\<open>close_all_positions\<close>: the loop has no handler, so an exception raised by one call
  leaves the loop.
\<close>

fun close_all_loop ::
  "(string \<Rightarrow> 'b world \<Rightarrow> outcome \<times> 'b world) \<Rightarrow> TradePosition list \<Rightarrow> 'b world \<Rightarrow> outcome \<times> 'b world" where
  "close_all_loop close [] w = (Returned PyNone, w)"
| "close_all_loop close (p # ps) w =
     and_then (close (pos_comment p) w) (close_all_loop close ps)"

definition close_all ::
  "(string \<Rightarrow> 'b world \<Rightarrow> outcome \<times> 'b world) \<Rightarrow> 'b env \<Rightarrow> 'b world \<Rightarrow> outcome \<times> 'b world" where
  "close_all close env w =
     (case positions_get env (broker w) of
        None \<Rightarrow> (Returned PyNone, logging [Error_Unable_to_retrieve_positions] w)
      | Some positions \<Rightarrow> close_all_loop close positions w)"

definition close_all_positions :: "'b env \<Rightarrow> 'b world \<Rightarrow> outcome \<times> 'b world" where
  "close_all_positions env = close_all (close_position_by_comment env) env"

definition close_all_positions1 :: "'b env \<Rightarrow> 'b world \<Rightarrow> outcome \<times> 'b world" where
  "close_all_positions1 env = close_all (close_position_by_comment1 env) env"

section \<open>The trading-hours gate\<close>

text \<open>
  \<^verbatim>\<open>is_trading_time\<close> returns the integer \<^verbatim>\<open>tradetime\<close>, 0 or 1. The argument is the local
  time in Asia/Shanghai. (The function also prints its decision.)
\<close>

definition is_trading_time :: "day \<times> nat \<Rightarrow> nat" where
  "is_trading_time beijing =
     (case beijing of
        (d, hour) \<Rightarrow>
          if weekday d \<ge> 5 \<or> (hour \<ge> 4 \<and> hour < 7) then 0 else 1)"

definition is_trading_time1 :: "day \<times> nat \<Rightarrow> nat" where
  "is_trading_time1 beijing =
     (case beijing of
        (d, hour) \<Rightarrow>
          if weekday d \<ge> 5 \<or> (hour \<ge> 6 \<and> hour < 7) then 0 else 1)"

section \<open>Executing a signal\<close>

text \<open>\<^verbatim>\<open>if signal.position_closed: self.close_position_by_comment(signal.position_closed)\<close>\<close>

definition close_if_given ::
  "(string \<Rightarrow> 'b world \<Rightarrow> outcome \<times> 'b world) \<Rightarrow> string option \<Rightarrow> 'b world \<Rightarrow> outcome \<times> 'b world" where
  "close_if_given close tag_closed w =
     (case tag_closed of
        None \<Rightarrow> (Returned PyNone, w)
      | Some tag \<Rightarrow> if tag = [] then (Returned PyNone, w) else close tag w)"

text \<open>
  The \<^verbatim>\<open>try\<close> block of \<^verbatim>\<open>execute_order\<close> in revision 0. \<^verbatim>\<open>signal.action\<close> is a string (a
  group of the match, or the literal that \<^verbatim>\<open>normalize_action\<close> puts in its place), and
  it is compared with the members \<^verbatim>\<open>ActionType.BUY\<close> and \<^verbatim>\<open>ActionType.SELL\<close> themselves. The
  two calls of \<^verbatim>\<open>is_trading_time\<close> happen with nothing in between: they read the same time.
\<close>

definition execute_order_try :: "'b env \<Rightarrow> TradingSignal \<Rightarrow> 'b world \<Rightarrow> outcome \<times> 'b world" where
  "execute_order_try env signal w =
     (if is_trading_time (beijing_time env (broker w)) \<noteq> 0 \<and> open_position signal \<noteq> [] then
        (if Str (action signal) = EnumMember BUY then
           and_then (enter_long env signal w)
             (close_if_given (close_position_by_comment env) (position_closed signal))
         else if Str (action signal) = EnumMember SELL then
           and_then (enter_short env signal w)
             (close_if_given (close_position_by_comment env) (position_closed signal))
         else (Returned PyNone, logging [Error_Action_is_not_supported] w))
      else
        (if is_trading_time (beijing_time env (broker w)) = 0 then
           and_then (close_all_positions env w)
             (\<lambda>w'. (Returned PyNone, logging [Error_Now_is_not_trading_time] w'))
         else (Returned PyNone, logging [Error_Correct_open_position_is_required] w)))"

text \<open>Revision 1 compares \<^verbatim>\<open>signal.action\<close> with the strings \<^verbatim>\<open>"BUY"\<close> and \<^verbatim>\<open>"SELL"\<close>.\<close>

definition execute_order_try1 :: "'b env \<Rightarrow> TradingSignal \<Rightarrow> 'b world \<Rightarrow> outcome \<times> 'b world" where
  "execute_order_try1 env signal w =
     (if is_trading_time1 (beijing_time env (broker w)) \<noteq> 0 \<and> open_position signal \<noteq> [] then
        (if action signal = ''BUY'' then
           and_then (enter_long1 env signal w)
             (close_if_given (close_position_by_comment1 env) (position_closed signal))
         else if action signal = ''SELL'' then
           and_then (enter_short1 env signal w)
             (close_if_given (close_position_by_comment1 env) (position_closed signal))
         else (Returned PyNone, logging [Error_Action_is_not_supported] w))
      else
        (if is_trading_time1 (beijing_time env (broker w)) = 0 then
           and_then (close_all_positions1 env w)
             (\<lambda>w'. (Returned PyNone, logging [Error_Now_is_not_trading_time] w'))
         else (Returned PyNone, logging [Error_Correct_open_position_is_required] w)))"

text \<open>\<^verbatim>\<open>except Exception as err\<close>: whatever the block raises is logged, and nothing is raised.\<close>

definition handled :: "outcome \<times> 'b world \<Rightarrow> 'b world" where
  "handled r =
     (case r of
        (Raised err, w) \<Rightarrow> logging [Error_An_error_occurred err] w
      | (Returned v, w) \<Rightarrow> w)"

definition execute_order :: "'b env \<Rightarrow> TradingSignal \<Rightarrow> 'b world \<Rightarrow> 'b world" where
  "execute_order env signal w =
     handled (execute_order_try env signal (logging [Info_Executing_order signal] w))"

definition execute_order1 :: "'b env \<Rightarrow> TradingSignal \<Rightarrow> 'b world \<Rightarrow> 'b world" where
  "execute_order1 env signal w =
     handled (execute_order_try1 env signal (logging [Info_Executing_order signal] w))"

section \<open>The trailing stop\<close>

record DynamicStopLossTakeProfit =
  self_symbol :: string
  self_action :: string
  take_profit :: real
  stop_loss :: real
  boll_periods :: int
  rsi_periods :: int
  trailing_stop_distance :: real

text \<open>
  \<^verbatim>\<open>get_price_data\<close>: the closing prices of the bars that \<^verbatim>\<open>copy_rates_from_pos\<close> returns,
  oldest first. Iterating over \<^verbatim>\<open>None\<close> raises \<^verbatim>\<open>TypeError\<close>.
\<close>

definition get_price_data :: "real list option \<Rightarrow> py_exception + real list" where
  "get_price_data rates =
     (case rates of None \<Rightarrow> Inl TypeError | Some closes \<Rightarrow> Inr closes)"

text \<open>
  \<^verbatim>\<open>adjust_trailing_stop\<close> as both revisions define it (lines 80 to 88 of revision 0 and
  97 to 105 of revision 1). The result is the exception raised, if any, and the object
  after the call. \<^verbatim>\<open>price_data[-1]\<close> raises \<^verbatim>\<open>IndexError\<close> on an empty list; it is
  evaluated only when the comparison of the action before it holds.
\<close>

definition adjust_trailing_stop ::
  "real list option \<Rightarrow> DynamicStopLossTakeProfit \<Rightarrow> py_exception option \<times> DynamicStopLossTakeProfit" where
  "adjust_trailing_stop rates self =
     (case get_price_data rates of
        Inl e \<Rightarrow> (Some e, self)
      | Inr price_data \<Rightarrow>
          if self_action self = enum_value BUY then
            (if price_data = [] then (Some IndexError, self)
             else if last price_data > stop_loss self + trailing_stop_distance self
             then (None, self\<lparr>stop_loss := last price_data - trailing_stop_distance self\<rparr>)
             else (None, self))
          else if self_action self = enum_value SELL then
            (if price_data = [] then (Some IndexError, self)
             else if last price_data < stop_loss self - trailing_stop_distance self
             then (None, self\<lparr>stop_loss := last price_data + trailing_stop_distance self\<rparr>)
             else (None, self))
          else (None, self))"

text \<open>
  Revision 0 defines \<^verbatim>\<open>adjust_trailing_stop\<close> a second time further down in the class
  (lines 134 to 146): the same update, followed by \<^verbatim>\<open>self.modify_sl_tp()\<close>, which reads
  the undefined name \<^verbatim>\<open>order\<close>. The update of the object is kept when that raises.
\<close>

definition adjust_trailing_stop_modify ::
  "real list option \<Rightarrow> DynamicStopLossTakeProfit \<Rightarrow> py_exception option \<times> DynamicStopLossTakeProfit" where
  "adjust_trailing_stop_modify rates self =
     (case adjust_trailing_stop rates self of
        (Some e, self') \<Rightarrow> (Some e, self')
      | (None, self') \<Rightarrow> (Some (NameError ''order''), self'))"

section \<open>A scripted gateway\<close>

text \<open>
  A small gateway for the concrete scenarios below. It knows one symbol, \<^verbatim>\<open>EURUSD\<close>, with
  bid 1.1048, ask 1.1050 and point 0.0001; it answers \<^verbatim>\<open>order_send\<close> from a list of
  prepared replies (and with \<^verbatim>\<open>None\<close> when the list is used up), and drops the position a
  closing request names when its reply is \<^verbatim>\<open>TRADE_RETCODE_DONE\<close>. The configuration has
  50 stop-loss pips and 100 take-profit pips.
\<close>

record sim =
  sim_positions :: "TradePosition list"
  sim_replies :: "int option list"
  sim_time :: "day \<times> nat"

definition sim_order_send :: "sim \<Rightarrow> trade_request \<Rightarrow> int option \<times> sim" where
  "sim_order_send b request =
     (case sim_replies b of
        [] \<Rightarrow> (None, b)
      | reply # replies \<Rightarrow>
          (reply,
           b\<lparr>sim_replies := replies,
             sim_positions :=
               (if reply = Some TRADE_RETCODE_DONE
                then filter (\<lambda>p. Some (pos_ticket p) \<noteq> req_position request) (sim_positions b)
                else sim_positions b)\<rparr>))"

definition sim_env :: "sim env" where
  "sim_env =
     \<lparr>symbol_info_tick = (\<lambda>b s. if s = ''EURUSD'' then Some \<lparr>bid = 1.1048, ask = 1.1050\<rparr> else None),
      symbol_info_point = (\<lambda>b s. if s = ''EURUSD'' then Some 0.0001 else None),
      positions_get = (\<lambda>b. Some (sim_positions b)),
      order_send = sim_order_send,
      beijing_time = sim_time,
      py_float = (\<lambda>s. if s = ''1.0'' then Some 1 else None),
      stop_loss_pips = 50,
      take_profit_pips = 100,
      self_deviation = 20,
      self_magic_number = 234000\<rparr>"

definition sim_world :: "TradePosition list \<Rightarrow> int option list \<Rightarrow> day \<times> nat \<Rightarrow> sim world" where
  "sim_world positions replies time =
     \<lparr>broker = \<lparr>sim_positions = positions, sim_replies = replies, sim_time = time\<rparr>,
      sent = [],
      logged = []\<rparr>"

text \<open>Two open positions on \<^verbatim>\<open>EURUSD\<close>, tagged \<^verbatim>\<open>Long_1\<close> and \<^verbatim>\<open>Short_2\<close>.\<close>

definition long_1 :: TradePosition where
  "long_1 = \<lparr>pos_ticket = 1, pos_symbol = ''EURUSD'', pos_type = POSITION_TYPE_BUY,
             pos_volume = 1, pos_comment = ''Long_1''\<rparr>"

definition short_2 :: TradePosition where
  "short_2 = \<lparr>pos_ticket = 2, pos_symbol = ''EURUSD'', pos_type = POSITION_TYPE_SELL,
              pos_volume = 2, pos_comment = ''Short_2''\<rparr>"

text \<open>A second position that carries the tag \<^verbatim>\<open>Long_1\<close>.\<close>

definition long_1_again :: TradePosition where
  "long_1_again = \<lparr>pos_ticket = 3, pos_symbol = ''EURUSD'', pos_type = POSITION_TYPE_BUY,
                   pos_volume = 5, pos_comment = ''Long_1''\<rparr>"

text \<open>The signal \<^verbatim>\<open>action=buy;symbol=EURUSD;volume=1.0;open_position=Long_1;position_closed=\<close>.\<close>

definition buy_signal :: TradingSignal where
  "buy_signal = \<lparr>action = ''buy'', symbol = ''EURUSD'', volume = ''1.0'',
                 open_position = ''Long_1'', position_closed = None\<rparr>"

text \<open>A long position with stop-loss 1.1000 that trails the price at a distance of 0.0050.\<close>

definition trailing_long :: DynamicStopLossTakeProfit where
  "trailing_long = \<lparr>self_symbol = ''EURUSD'', self_action = ''BUY'', take_profit = 1.1150,
     stop_loss = 1.1000, boll_periods = 20, rsi_periods = 14, trailing_stop_distance = 0.0050\<rparr>"

section \<open>Properties\<close>

subsection \<open>The decorated methods make one attempt\<close>

text \<open>
  None of the decorated bodies returns an exception object: a failure is raised, and what
  is returned is \<^verbatim>\<open>None\<close> or the result of \<^verbatim>\<open>order_send\<close>. So \<^verbatim>\<open>retry_if_result\<close> never asks
  for a second attempt, and each decorated method behaves as its body.
\<close>


lemma retrying_once:
  "\<not> retry_if_result is_requote_error (fst (fn w)) \<Longrightarrow> retrying n fn w = fn w"
  by (subst retrying.simps) (cases "fn w", simp)

lemma entry_result_no_retry:
  "\<not> retry_if_result is_requote_error (fst (entry_result l r))"
  by (simp add: entry_result_def split: prod.splits option.splits)

lemma enter_long_body_no_retry:
  "\<not> retry_if_result is_requote_error (fst (enter_long_body env signal w))"
  by (simp add: enter_long_body_def entry_result_no_retry split: option.splits)

lemma enter_short_body_no_retry:
  "\<not> retry_if_result is_requote_error (fst (enter_short_body env signal w))"
  by (simp add: enter_short_body_def entry_result_no_retry split: option.splits)

lemma enter_body1_no_retry:
  "\<not> retry_if_result is_requote_error (fst (enter_body1 env signal w))"
  by (simp add: enter_body1_def split: option.splits)

lemma close_one_no_retry:
  "\<not> retry_if_result is_requote_error (fst (close_one d m env tag p w))"
  by (simp add: close_one_def split: option.splits prod.splits)

lemma close_loop_no_retry:
  "\<not> retry_if_result is_requote_error (fst (close_loop d m env tag ps w))"
  by (induction ps) (simp_all add: close_one_no_retry)

lemma close_body_no_retry:
  "\<not> retry_if_result is_requote_error (fst (close_body d m env tag w))"
  by (simp add: close_body_def close_loop_no_retry split: option.splits)

lemma enter_long_once: "enter_long env signal w = enter_long_body env signal w"
  by (simp add: enter_long_def retry_def retrying_once enter_long_body_no_retry)

lemma enter_short_once: "enter_short env signal w = enter_short_body env signal w"
  by (simp add: enter_short_def retry_def retrying_once enter_short_body_no_retry)

lemma enter_long1_once: "enter_long1 env signal w = enter_body1 env signal w"
  by (simp add: enter_long1_def retry_def retrying_once enter_body1_no_retry)

lemma enter_short1_once: "enter_short1 env signal w = enter_body1 env signal w"
  by (simp add: enter_short1_def retry_def retrying_once enter_body1_no_retry)

lemma close_position_by_comment_once:
  "close_position_by_comment env tag w = close_body 30 234000 env tag w"
  by (simp add: close_position_by_comment_def retry_def retrying_once close_body_no_retry)

lemma close_position_by_comment1_once:
  "close_position_by_comment1 env tag w =
     close_body (self_deviation env + 10) (self_magic_number env) env tag w"
  by (simp add: close_position_by_comment1_def retry_def retrying_once close_body_no_retry)

lemma close_loop_first_match:
  "find (\<lambda>p. pos_comment p = tag) ps = Some p \<Longrightarrow>
     close_loop d m env tag ps w = close_one d m env tag p w"
  by (induction ps) (auto split: if_splits)

text \<open>The definitions that a concrete scenario on the scripted gateway unfolds.\<close>

lemmas sim_defs = sim_env_def sim_world_def sim_order_send_def long_1_def short_2_def
  long_1_again_def buy_signal_def logging_def mt5_order_send_def TRADE_RETCODE_DONE_def

subsection \<open>The trading-hours gate\<close>

text \<open>
  C7, as the code has it. The gate reports closed (returns 0) exactly when the local day is
  Saturday or Sunday or the local hour lies in a fixed window: from 4 up to but not
  including 7 in revision 0, from 6 up to but not including 7 in revision 1. The bounds
  are literals of the function; it reads no configuration.
\<close>

theorem is_trading_time_fixed_window:
  "(is_trading_time (d, hour) = 0) = (d = Saturday \<or> d = Sunday \<or> (4 \<le> hour \<and> hour < 7)) \<and>
   (is_trading_time1 (d, hour) = 0) = (d = Saturday \<or> d = Sunday \<or> (6 \<le> hour \<and> hour < 7))"
  by (cases d) (simp_all add: is_trading_time_def is_trading_time1_def)

text \<open>
  C7 as stated fails: the gate does not follow a configured window. With the window
  configured as 6 to 7, on a Monday at 5 o'clock, the gate of revision 0 reports closed.
\<close>

theorem is_trading_time_configured_window_counterexample:
  "\<not> (\<forall>startHour endHour d hour.
        (is_trading_time (d, hour) = 0) =
        (d = Saturday \<or> d = Sunday \<or> (startHour \<le> hour \<and> hour < endHour)))"
proof
  assume "\<forall>startHour endHour d hour.
        (is_trading_time (d, hour) = 0) =
        (d = Saturday \<or> d = Sunday \<or> (startHour \<le> hour \<and> hour < endHour))"
  then have "(is_trading_time (Monday, 5) = 0) =
        (Monday = Saturday \<or> Monday = Sunday \<or> ((6::nat) \<le> 5 \<and> (5::nat) < 7))"
    by blast
  then show False by (simp add: is_trading_time_def)
qed

subsection \<open>Entry orders\<close>

text \<open>
  C4. When the tick and the point of the symbol are known and the volume is a number,
  \<^verbatim>\<open>enter_long\<close> submits exactly one request: a buy at the ask, with stop-loss
  ask - stop_loss_pips * point and take-profit ask + take_profit_pips * point; and
  \<^verbatim>\<open>enter_short\<close> submits exactly one request: a sell at the bid, with stop-loss
  bid + stop_loss_pips * point and take-profit bid - take_profit_pips * point.
  (Otherwise the method raises before it reaches \<^verbatim>\<open>order_send\<close>.)
\<close>

theorem entry_order_prices:
  assumes "symbol_info_tick env (broker w) (symbol signal) = Some t"
      and "symbol_info_point env (broker w) (symbol signal) = Some point"
      and "py_float env (volume signal) = Some v"
  shows "sent (snd (enter_long env signal w)) =
           sent w @
           [\<lparr>req_symbol = symbol signal, req_volume = v, req_type = ORDER_TYPE_BUY,
             req_price = ask t,
             req_sl = Some (ask t - stop_loss_pips env * point),
             req_tp = Some (ask t + take_profit_pips env * point),
             req_deviation = 20, req_magic = 234000,
             req_comment = Tag (open_position signal),
             req_type_filling = ORDER_FILLING_IOC, req_position = None\<rparr>] \<and>
         sent (snd (enter_short env signal w)) =
           sent w @
           [\<lparr>req_symbol = symbol signal, req_volume = v, req_type = ORDER_TYPE_SELL,
             req_price = bid t,
             req_sl = Some (bid t + stop_loss_pips env * point),
             req_tp = Some (bid t - take_profit_pips env * point),
             req_deviation = 20, req_magic = 234000,
             req_comment = Tag (open_position signal),
             req_type_filling = ORDER_FILLING_IOC, req_position = None\<rparr>]"
proof -
  have sent_entry: "sent (snd (entry_result l (mt5_order_send env request w))) = sent w @ [request]"
    for l request
    by (simp add: entry_result_def mt5_order_send_def logging_def split: prod.splits option.splits)
  show ?thesis
    using assms
    by (simp add: enter_long_once enter_short_once enter_long_body_def enter_short_body_def
        sent_entry)
qed

text \<open>
  The scenario of C4: ask 1.1050, point 0.0001, 50 stop-loss pips and 100 take-profit pips
  give a buy with stop-loss 1.1000 and take-profit 1.1150 (and, at the bid 1.1048, a sell
  with stop-loss 1.1098 and take-profit 1.0948).
\<close>

theorem entry_order_prices_witness:
  "map req_price (sent (snd (enter_long sim_env buy_signal (sim_world [] [Some 10009] (Monday, 12))))) = [1.1050] \<and>
   map req_sl (sent (snd (enter_long sim_env buy_signal (sim_world [] [Some 10009] (Monday, 12))))) = [Some 1.1000] \<and>
   map req_tp (sent (snd (enter_long sim_env buy_signal (sim_world [] [Some 10009] (Monday, 12))))) = [Some 1.1150] \<and>
   map req_type (sent (snd (enter_long sim_env buy_signal (sim_world [] [Some 10009] (Monday, 12))))) = [ORDER_TYPE_BUY] \<and>
   map req_price (sent (snd (enter_short sim_env buy_signal (sim_world [] [Some 10009] (Monday, 12))))) = [1.1048] \<and>
   map req_sl (sent (snd (enter_short sim_env buy_signal (sim_world [] [Some 10009] (Monday, 12))))) = [Some 1.1098] \<and>
   map req_tp (sent (snd (enter_short sim_env buy_signal (sim_world [] [Some 10009] (Monday, 12))))) = [Some 1.0948]"
proof -
  let ?w = "sim_world [] [Some 10009] (Monday, 12)"
  have t: "symbol_info_tick sim_env (broker ?w) (symbol buy_signal) = Some \<lparr>bid = 1.1048, ask = 1.1050\<rparr>"
    by (simp add: sim_defs)
  have p: "symbol_info_point sim_env (broker ?w) (symbol buy_signal) = Some 0.0001"
    by (simp add: sim_defs)
  have v: "py_float sim_env (volume buy_signal) = Some 1"
    by (simp add: sim_defs)
  show ?thesis
    using entry_order_prices [OF t p v]
    by (simp add: sim_defs)
qed

subsection \<open>Closing by tag\<close>

text \<open>
  C5. When no open position carries the tag, \<^verbatim>\<open>close_position_by_comment\<close> (in both
  revisions) reports that the position does not exist, by an error record in the log
  and the return value \<^verbatim>\<open>None\<close>, and leaves the gateway and the list of submitted
  requests as they were: no closing order is submitted.
\<close>

theorem close_unknown_tag:
  assumes "positions_get env (broker w) = Some positions"
      and "\<forall>p \<in> set positions. pos_comment p \<noteq> tag"
  shows "close_position_by_comment env tag w =
           (Returned PyNone, w\<lparr>logged := logged w @ [Error_Position_does_not_exist tag]\<rparr>) \<and>
         close_position_by_comment1 env tag w =
           (Returned PyNone, w\<lparr>logged := logged w @ [Error_Position_does_not_exist tag]\<rparr>)"
proof -
  from assms(2) have "find (\<lambda>p. pos_comment p = tag) positions = None"
    by (simp add: find_None_iff)
  with assms(1) show ?thesis
    by (simp add: close_position_by_comment_once close_position_by_comment1_once
        close_body_def logging_def)
qed

text \<open>With \<^verbatim>\<open>Long_1\<close> and \<^verbatim>\<open>Short_2\<close> open, closing \<^verbatim>\<open>Long_9\<close> submits nothing.\<close>

theorem close_unknown_tag_witness:
  "close_position_by_comment sim_env ''Long_9'' (sim_world [long_1, short_2] [Some 10009] (Monday, 12)) =
     (Returned PyNone,
      \<lparr>broker = \<lparr>sim_positions = [long_1, short_2], sim_replies = [Some 10009], sim_time = (Monday, 12)\<rparr>,
       sent = [],
       logged = [Error_Position_does_not_exist ''Long_9'']\<rparr>)"
proof -
  let ?w = "sim_world [long_1, short_2] [Some 10009] (Monday, 12)"
  have a: "positions_get sim_env (broker ?w) = Some [long_1, short_2]"
    by (simp add: sim_defs)
  have b: "\<forall>p \<in> set [long_1, short_2]. pos_comment p \<noteq> ''Long_9''"
    by (simp add: sim_defs)
  show ?thesis
    using close_unknown_tag [OF a b]
    by (simp add: sim_defs)
qed

lemma sent_close_one:
  "sent (snd (close_one d m env tag p w)) =
     sent w @
     (case symbol_info_tick env (broker w) (pos_symbol p) of
        None \<Rightarrow> []
      | Some t \<Rightarrow>
          (case symbol_info_point env (broker w) (pos_symbol p) of
             None \<Rightarrow> []
           | Some point \<Rightarrow> [closing_request d m p t]))"
  by (auto simp: close_one_def mt5_order_send_def logging_def split: option.splits prod.splits)

text \<open>
  C10. When several open positions carry the tag, one call of
  \<^verbatim>\<open>close_position_by_comment\<close> (in both revisions) submits at most one request: the
  closing request for the first position with the tag in the order of enumeration, and
  only when the tick and the point of its symbol are known. No request is submitted for
  the positions after it, whatever tags they carry.
\<close>

theorem close_first_match_only:
  assumes "positions_get env (broker w) = Some (before @ p # after)"
      and "\<forall>q \<in> set before. pos_comment q \<noteq> tag"
      and "pos_comment p = tag"
  shows "sent (snd (close_position_by_comment env tag w)) =
           sent w @
           (case symbol_info_tick env (broker w) (pos_symbol p) of
              None \<Rightarrow> []
            | Some t \<Rightarrow>
                (case symbol_info_point env (broker w) (pos_symbol p) of
                   None \<Rightarrow> []
                 | Some point \<Rightarrow> [closing_request 30 234000 p t])) \<and>
         sent (snd (close_position_by_comment1 env tag w)) =
           sent w @
           (case symbol_info_tick env (broker w) (pos_symbol p) of
              None \<Rightarrow> []
            | Some t \<Rightarrow>
                (case symbol_info_point env (broker w) (pos_symbol p) of
                   None \<Rightarrow> []
                 | Some point \<Rightarrow>
                     [closing_request (self_deviation env + 10) (self_magic_number env) p t]))"
proof -
  from assms(2,3) have f: "find (\<lambda>q. pos_comment q = tag) (before @ p # after) = Some p"
    by (induction before) auto
  show ?thesis
    using assms(1) f
    by (simp add: close_position_by_comment_once close_position_by_comment1_once
        close_body_def close_loop_first_match sent_close_one)
qed

text \<open>
  With \<^verbatim>\<open>Short_2\<close>, \<^verbatim>\<open>Long_1\<close> (ticket 1) and a second \<^verbatim>\<open>Long_1\<close> (ticket 3) open, closing
  \<^verbatim>\<open>Long_1\<close> submits one request, for ticket 1, and ticket 3 stays open.
\<close>

theorem close_first_match_only_witness:
  "map req_position
     (sent (snd (close_position_by_comment sim_env ''Long_1''
        (sim_world [short_2, long_1, long_1_again] [Some 10009, Some 10009] (Monday, 12))))) = [Some 1] \<and>
   sim_positions (broker (snd (close_position_by_comment sim_env ''Long_1''
        (sim_world [short_2, long_1, long_1_again] [Some 10009, Some 10009] (Monday, 12))))) =
     [short_2, long_1_again]"
proof -
  let ?w = "sim_world [short_2, long_1, long_1_again] [Some 10009, Some 10009] (Monday, 12)"
  have a: "positions_get sim_env (broker ?w) = Some ([short_2] @ long_1 # [long_1_again])"
    by (simp add: sim_defs)
  have b: "\<forall>q \<in> set [short_2]. pos_comment q \<noteq> ''Long_1''"
    by (simp add: sim_defs)
  have c: "pos_comment long_1 = ''Long_1''"
    by (simp add: sim_defs)
  have d: "sim_positions (broker (snd (close_position_by_comment sim_env ''Long_1'' ?w))) =
     [short_2, long_1_again]"
    by (simp add: close_position_by_comment_once close_body_def close_one_def closing_request_def
        sim_defs)
  show ?thesis
    using close_first_match_only [OF a b c] d
    by (simp add: sim_defs closing_request_def)
qed

subsection \<open>The trailing stop\<close>

text \<open>
  C9. A call of \<^verbatim>\<open>adjust_trailing_stop\<close> (either definition) never lowers the stop-loss of
  a \<^verbatim>\<open>BUY\<close> position and never raises the stop-loss of a \<^verbatim>\<open>SELL\<close> position, whatever the
  price history and whether or not the call raises. When the stop-loss of a \<^verbatim>\<open>BUY\<close>
  position changes, the new value is the last price minus the trailing distance (and so
  higher than the old one); when that of a \<^verbatim>\<open>SELL\<close> position changes, it is the last price
  plus the trailing distance.
\<close>

theorem adjust_trailing_stop_only_tightens:
  assumes "adjust_trailing_stop rates self = (raised, self') \<or>
           adjust_trailing_stop_modify rates self = (raised, self')"
  shows "(self_action self = ''BUY'' \<longrightarrow>
            stop_loss self \<le> stop_loss self' \<and>
            (stop_loss self' \<noteq> stop_loss self \<longrightarrow>
               (\<exists>price_data. rates = Some price_data \<and> price_data \<noteq> [] \<and>
                  stop_loss self' = last price_data - trailing_stop_distance self))) \<and>
         (self_action self = ''SELL'' \<longrightarrow>
            stop_loss self' \<le> stop_loss self \<and>
            (stop_loss self' \<noteq> stop_loss self \<longrightarrow>
               (\<exists>price_data. rates = Some price_data \<and> price_data \<noteq> [] \<and>
                  stop_loss self' = last price_data + trailing_stop_distance self)))"
proof -
  from assms have "snd (adjust_trailing_stop rates self) = self'"
    by (auto simp: adjust_trailing_stop_modify_def split: prod.splits option.splits)
  then show ?thesis
    by (cases rates)
       (auto simp: adjust_trailing_stop_def get_price_data_def split: if_splits)
qed

text \<open>A long position with stop-loss 1.1000 and distance 0.0050: at the price 1.1100 the stop-loss goes up to 1.1050.\<close>

theorem adjust_trailing_stop_only_tightens_witness:
  "adjust_trailing_stop (Some [1.1040, 1.1100]) trailing_long =
     (None, trailing_long\<lparr>stop_loss := 1.1050\<rparr>) \<and>
   self_action trailing_long = ''BUY'' \<and>
   stop_loss trailing_long \<le> stop_loss (trailing_long\<lparr>stop_loss := 1.1050\<rparr>)"
proof -
  have a: "adjust_trailing_stop (Some [1.1040, 1.1100]) trailing_long =
     (None, trailing_long\<lparr>stop_loss := 1.1050\<rparr>)"
    by (simp add: adjust_trailing_stop_def get_price_data_def trailing_long_def)
  have b: "self_action trailing_long = ''BUY''"
    by (simp add: trailing_long_def)
  show ?thesis
    using adjust_trailing_stop_only_tightens [OF disjI1 [OF a]] a b
    by simp
qed

subsection \<open>Executing a signal\<close>

lemma normalize_buy_signal: "normalize_action buy_signal = buy_signal\<lparr>action := ''BUY''\<rparr>"
  by (simp add: normalize_action_def buy_signal_def lower_def lower_char_def is_upper_def)

text \<open>
  In revision 0 the comparison of the string \<^verbatim>\<open>signal.action\<close> with a member of
  \<^verbatim>\<open>ActionType\<close> is never true: with the gate open and a tag given, every signal ends in
  \<^verbatim>\<open>Action is not supported\<close>, whatever its action.
\<close>

lemma execute_order_rejects_every_action:
  assumes "is_trading_time (beijing_time env (broker w)) \<noteq> 0" and "open_position signal \<noteq> []"
  shows "execute_order env signal w =
           w\<lparr>logged := logged w @ [Info_Executing_order signal, Error_Action_is_not_supported]\<rparr>"
  using assms
  by (simp add: execute_order_def execute_order_try_def handled_def logging_def)

text \<open>
  In revision 1 the comparison is between strings, but \<^verbatim>\<open>enter_long\<close> and \<^verbatim>\<open>enter_short\<close>
  raise before they reach \<^verbatim>\<open>order_send\<close>: with the gate open and a tag given, no request
  is submitted.
\<close>

lemma execute_order1_never_enters:
  assumes "is_trading_time1 (beijing_time env (broker w)) \<noteq> 0" and "open_position signal \<noteq> []"
  shows "sent (execute_order1 env signal w) = sent w"
  using assms
  by (auto simp: execute_order1_def execute_order_try1_def handled_def logging_def and_then_def
      enter_long1_once enter_short1_once enter_body1_def split: option.splits)

text \<open>
  C1 at the signal \<^verbatim>\<open>action=buy;symbol=EURUSD;volume=1.0;open_position=Long_1;position_closed=\<close>,
  normalised, on a Monday at 12 o'clock, with a gateway that would accept the order.
  Revision 0 logs \<^verbatim>\<open>Action is not supported\<close> and submits nothing; revision 1 logs the
  \<^verbatim>\<open>NameError\<close> raised by \<^verbatim>\<open>enter_long\<close> and submits nothing.
\<close>

theorem execute_order_buy_submits_nothing:
  "execute_order sim_env (normalize_action buy_signal) (sim_world [] [Some 10009] (Monday, 12)) =
     \<lparr>broker = \<lparr>sim_positions = [], sim_replies = [Some 10009], sim_time = (Monday, 12)\<rparr>,
      sent = [],
      logged = [Info_Executing_order (buy_signal\<lparr>action := ''BUY''\<rparr>),
                Error_Action_is_not_supported]\<rparr> \<and>
   execute_order1 sim_env (normalize_action buy_signal) (sim_world [] [Some 10009] (Monday, 12)) =
     \<lparr>broker = \<lparr>sim_positions = [], sim_replies = [Some 10009], sim_time = (Monday, 12)\<rparr>,
      sent = [],
      logged = [Info_Executing_order (buy_signal\<lparr>action := ''BUY''\<rparr>),
                Error_An_error_occurred (NameError ''stop_loss_pips'')]\<rparr>"
  unfolding normalize_buy_signal
  by (simp add: execute_order_def execute_order_try_def execute_order1_def
      execute_order_try1_def handled_def and_then_def is_trading_time_def is_trading_time1_def
      enter_long1_once enter_body1_def sim_defs)

subsection \<open>The retry decorator on a rejected order\<close>

text \<open>An attempt that raises is the only attempt.\<close>

lemma retry_raised_once:
  assumes "fn w = (Raised e, w')"
  shows "retry fn w = (Raised e, w')"
  using assms by (simp add: retry_def retrying_once)

text \<open>
  C2 at a gateway that rejects the first order (retcode 10004, a requote) and would
  accept the second: \<^verbatim>\<open>enter_long\<close> calls \<^verbatim>\<open>order_send\<close> once and raises
  \<^verbatim>\<open>Exception("Trade failed")\<close>; the second reply is never asked for. And at a gateway that
  rejects every order, \<^verbatim>\<open>close_position_by_comment\<close> calls \<^verbatim>\<open>order_send\<close> once, not five
  times: four of the five prepared replies are left.
\<close>

theorem retry_makes_one_attempt:
  "enter_long sim_env buy_signal (sim_world [] [Some 10004, Some 10009] (Monday, 12)) =
     (Raised (Exception ''Trade failed''),
      \<lparr>broker = \<lparr>sim_positions = [], sim_replies = [Some 10009], sim_time = (Monday, 12)\<rparr>,
       sent = [\<lparr>req_symbol = ''EURUSD'', req_volume = 1, req_type = ORDER_TYPE_BUY,
                req_price = 1.1050, req_sl = Some 1.1000, req_tp = Some 1.1150,
                req_deviation = 20, req_magic = 234000, req_comment = Tag ''Long_1'',
                req_type_filling = ORDER_FILLING_IOC, req_position = None\<rparr>],
       logged = [Error_Trade_failed_retcode 10004, Error_last_error]\<rparr>) \<and>
   close_position_by_comment sim_env ''Long_1''
       (sim_world [long_1] [Some 10004, Some 10004, Some 10004, Some 10004, Some 10004] (Monday, 12)) =
     (Raised (Exception ''Trade failed''),
      \<lparr>broker = \<lparr>sim_positions = [long_1],
                  sim_replies = [Some 10004, Some 10004, Some 10004, Some 10004],
                  sim_time = (Monday, 12)\<rparr>,
       sent = [closing_request 30 234000 long_1 \<lparr>bid = 1.1048, ask = 1.1050\<rparr>],
       logged = [Error_Trade_failed_retcode 10004, Error_last_error]\<rparr>)"
  by (simp add: enter_long_def close_position_by_comment_def retry_def retrying.simps [of "Suc 0"]
      enter_long_body_def entry_result_def close_body_def close_one_def sim_defs)

subsection \<open>Closing all positions\<close>

lemma close_all_loop_stops:
  assumes "close_all_loop close before w = (Returned v, w1)"
      and "close (pos_comment p) w1 = (Raised e, w2)"
  shows "close_all_loop close (before @ p # after) w = (Raised e, w2)"
  using assms
proof (induction before arbitrary: w)
  case Nil
  then show ?case by (simp add: and_then_def)
next
  case (Cons q before)
  then show ?case
    by (cases "close (pos_comment q) w") (auto simp: and_then_def split: outcome.splits)
qed

lemma close_all_loop_continues:
  assumes "close_all_loop close before w = (Returned v1, w1)"
      and "close (pos_comment p) w1 = (Returned v2, w2)"
  shows "close_all_loop close (before @ p # after) w = close_all_loop close after w2"
  using assms
proof (induction before arbitrary: w)
  case Nil
  then show ?case by (simp add: and_then_def)
next
  case (Cons q before)
  then show ?case
    by (cases "close (pos_comment q) w") (auto simp: and_then_def split: outcome.splits)
qed

lemma close_one_returned_logs_one:
  assumes "close_one d m env tag p w = (Returned v, w')"
  shows "length (logged w') = Suc (length (logged w))"
  using assms
  by (auto simp: close_one_def mt5_order_send_def logging_def
      split: option.splits prod.splits if_splits)

lemma close_body_returned_logs_one:
  assumes "close_body d m env tag w = (Returned v, w')"
  shows "length (logged w') = Suc (length (logged w))"
proof (cases "positions_get env (broker w)")
  case None
  with assms show ?thesis by (auto simp: close_body_def logging_def)
next
  case (Some positions)
  show ?thesis
  proof (cases "find (\<lambda>p. pos_comment p = tag) positions")
    case None
    with Some assms show ?thesis by (auto simp: close_body_def logging_def)
  next
    case found: (Some p)
    with Some assms have "close_one d m env tag p w = (Returned v, w')"
      by (simp add: close_body_def close_loop_first_match)
    then show ?thesis by (rule close_one_returned_logs_one)
  qed
qed

lemma close_all_loop_returned_logs:
  assumes "close_all_loop (close_position_by_comment env) positions w = (Returned v, w')"
  shows "length (logged w') = length (logged w) + length positions"
  using assms
proof (induction positions arbitrary: w)
  case Nil
  then show ?case by simp
next
  case (Cons p positions)
  obtain out w1 where c: "close_position_by_comment env (pos_comment p) w = (out, w1)"
    by (cases "close_position_by_comment env (pos_comment p) w")
  with Cons.prems obtain v1 where r: "out = Returned v1"
    and l: "close_all_loop (close_position_by_comment env) positions w1 = (Returned v, w')"
    by (cases out) (auto simp: and_then_def)
  from c r have "length (logged w1) = Suc (length (logged w))"
    by (simp add: close_position_by_comment_once close_body_returned_logs_one)
  with Cons.IH [OF l] show ?case by simp
qed

text \<open>
  C3, as the code has it. \<^verbatim>\<open>close_all_positions\<close> calls \<^verbatim>\<open>close_position_by_comment\<close> with
  the tag of each enumerated position in turn, as long as no call raises. With the calls
  for the positions \<open>before\<close> returned:
  \<^item> when the call for the next position \<open>p\<close> raises, \<^verbatim>\<open>close_all_positions\<close> raises that
    exception in the state that call left: nothing is attempted for the positions
    \<open>after\<close>;
  \<^item> when the call for \<open>p\<close> returns (the position closed, or the failure logged without
    an exception), the loop goes on with the positions \<open>after\<close>.

  And when \<^verbatim>\<open>close_all_positions\<close> returns, the call was made for every enumerated
  position, and each call logged its one result (closed, no such position any more, no
  order result, or no position list).
\<close>

theorem close_all_positions_until_raise:
  assumes "positions_get env (broker w) = Some positions"
  shows "(positions = before @ p # after \<and>
          close_all_loop (close_position_by_comment env) before w = (Returned v1, w1) \<and>
          close_position_by_comment env (pos_comment p) w1 = (Raised e, w2) \<longrightarrow>
            close_all_positions env w = (Raised e, w2)) \<and>
         (positions = before @ p # after \<and>
          close_all_loop (close_position_by_comment env) before w = (Returned v1, w1) \<and>
          close_position_by_comment env (pos_comment p) w1 = (Returned v2, w3) \<longrightarrow>
            close_all_positions env w =
              close_all_loop (close_position_by_comment env) after w3) \<and>
         (close_all_positions env w = (Returned v, w') \<longrightarrow>
            length (logged w') = length (logged w) + length positions)"
  using assms
  by (auto simp: close_all_positions_def close_all_def close_all_loop_stops
      close_all_loop_continues close_all_loop_returned_logs)

text \<open>The definitions that a concrete run of \<^verbatim>\<open>close_all_positions\<close> unfolds.\<close>

lemmas close_eval = close_all_positions_def close_all_def and_then_def
  close_position_by_comment_once close_body_def close_one_def closing_request_def

text \<open>
  C3 as stated fails. With \<^verbatim>\<open>Long_1\<close> and \<^verbatim>\<open>Short_2\<close> enumerated and a gateway that rejects
  the first closing order and would accept the second, the rejection is logged and
  raised, and no closing order is submitted for \<^verbatim>\<open>Short_2\<close>.
\<close>

theorem close_all_positions_aborts_counterexample:
  "close_all_positions sim_env (sim_world [long_1, short_2] [Some 10004, Some 10009] (Saturday, 12)) =
     (Raised (Exception ''Trade failed''),
      \<lparr>broker = \<lparr>sim_positions = [long_1, short_2], sim_replies = [Some 10009],
                  sim_time = (Saturday, 12)\<rparr>,
       sent = [closing_request 30 234000 long_1 \<lparr>bid = 1.1048, ask = 1.1050\<rparr>],
       logged = [Error_Trade_failed_retcode 10004, Error_last_error]\<rparr>)"
  by (simp add: close_eval sim_defs)

text \<open>
  Three positions, the second closing order rejected: the third position is not
  attempted. Two positions, the first \<^verbatim>\<open>order_send\<close> answering \<^verbatim>\<open>None\<close>: that failure is
  logged, the second position is closed, and two records are logged in all.
\<close>

theorem close_all_positions_until_raise_witness:
  "close_all_positions sim_env
       (sim_world [short_2, long_1, long_1_again] [Some 10009, Some 10004, Some 10009] (Saturday, 12)) =
     (Raised (Exception ''Trade failed''),
      \<lparr>broker = \<lparr>sim_positions = [long_1, long_1_again], sim_replies = [Some 10009],
                  sim_time = (Saturday, 12)\<rparr>,
       sent = [closing_request 30 234000 short_2 \<lparr>bid = 1.1048, ask = 1.1050\<rparr>,
               closing_request 30 234000 long_1 \<lparr>bid = 1.1048, ask = 1.1050\<rparr>],
       logged = [Info_Close_processed ''Short_2'', Error_Trade_failed_retcode 10004,
                 Error_last_error]\<rparr>) \<and>
   close_all_positions sim_env (sim_world [long_1, short_2] [None, Some 10009] (Saturday, 12)) =
     (Returned PyNone,
      \<lparr>broker = \<lparr>sim_positions = [long_1], sim_replies = [], sim_time = (Saturday, 12)\<rparr>,
       sent = [closing_request 30 234000 long_1 \<lparr>bid = 1.1048, ask = 1.1050\<rparr>,
               closing_request 30 234000 short_2 \<lparr>bid = 1.1048, ask = 1.1050\<rparr>],
       logged = [Error_Order_send_result_is_None, Info_Close_processed ''Short_2'']\<rparr>) \<and>
   length (logged (snd (close_all_positions sim_env
       (sim_world [long_1, short_2] [None, Some 10009] (Saturday, 12))))) = 2"
proof -
  let ?w = "sim_world [short_2, long_1, long_1_again] [Some 10009, Some 10004, Some 10009] (Saturday, 12)"
  let ?w1 = "\<lparr>broker = \<lparr>sim_positions = [long_1, long_1_again],
                 sim_replies = [Some 10004, Some 10009], sim_time = (Saturday, 12)\<rparr>,
       sent = [closing_request 30 234000 short_2 \<lparr>bid = 1.1048, ask = 1.1050\<rparr>],
       logged = [Info_Close_processed ''Short_2'']\<rparr>"
  let ?w2 = "\<lparr>broker = \<lparr>sim_positions = [long_1, long_1_again], sim_replies = [Some 10009],
                  sim_time = (Saturday, 12)\<rparr>,
       sent = [closing_request 30 234000 short_2 \<lparr>bid = 1.1048, ask = 1.1050\<rparr>,
               closing_request 30 234000 long_1 \<lparr>bid = 1.1048, ask = 1.1050\<rparr>],
       logged = [Info_Close_processed ''Short_2'', Error_Trade_failed_retcode 10004,
                 Error_last_error]\<rparr>"
  have a: "positions_get sim_env (broker ?w) = Some [short_2, long_1, long_1_again]"
    by (simp add: sim_defs)
  have b: "[short_2, long_1, long_1_again] = [short_2] @ long_1 # [long_1_again]"
    by simp
  have c: "close_all_loop (close_position_by_comment sim_env) [short_2] ?w = (Returned PyNone, ?w1)"
    by (simp add: close_eval sim_defs)
  have d: "close_position_by_comment sim_env (pos_comment long_1) ?w1 =
             (Raised (Exception ''Trade failed''), ?w2)"
    by (simp add: close_eval sim_defs)
  from close_all_positions_until_raise [OF a, where before = "[short_2]" and p = long_1
      and after = "[long_1_again]" and ?v1.0 = PyNone and ?w1.0 = ?w1
      and e = "Exception ''Trade failed''" and ?w2.0 = ?w2] b c d
  have first: "close_all_positions sim_env ?w = (Raised (Exception ''Trade failed''), ?w2)"
    by blast
  let ?u = "sim_world [long_1, short_2] [None, Some 10009] (Saturday, 12)"
  let ?u1 = "\<lparr>broker = \<lparr>sim_positions = [long_1, short_2], sim_replies = [Some 10009],
                  sim_time = (Saturday, 12)\<rparr>,
       sent = [closing_request 30 234000 long_1 \<lparr>bid = 1.1048, ask = 1.1050\<rparr>],
       logged = [Error_Order_send_result_is_None]\<rparr>"
  let ?u2 = "\<lparr>broker = \<lparr>sim_positions = [long_1], sim_replies = [], sim_time = (Saturday, 12)\<rparr>,
       sent = [closing_request 30 234000 long_1 \<lparr>bid = 1.1048, ask = 1.1050\<rparr>,
               closing_request 30 234000 short_2 \<lparr>bid = 1.1048, ask = 1.1050\<rparr>],
       logged = [Error_Order_send_result_is_None, Info_Close_processed ''Short_2'']\<rparr>"
  have f: "positions_get sim_env (broker ?u) = Some [long_1, short_2]"
    by (simp add: sim_defs)
  have g: "[long_1, short_2] = [] @ long_1 # [short_2]"
    by simp
  have h: "close_all_loop (close_position_by_comment sim_env) [] ?u = (Returned PyNone, ?u)"
    by simp
  have i: "close_position_by_comment sim_env (pos_comment long_1) ?u = (Returned PyNone, ?u1)"
    by (simp add: close_eval sim_defs)
  have j: "close_all_loop (close_position_by_comment sim_env) [short_2] ?u1 = (Returned PyNone, ?u2)"
    by (simp add: close_eval sim_defs)
  from close_all_positions_until_raise [OF f, where before = "[]" and p = long_1
      and after = "[short_2]" and ?v1.0 = PyNone and ?w1.0 = ?u and ?v2.0 = PyNone and ?w3.0 = ?u1]
    g h i j
  have second: "close_all_positions sim_env ?u = (Returned PyNone, ?u2)"
    by metis
  from close_all_positions_until_raise [OF f, where v = PyNone and w' = ?u2] second
  have "length (logged ?u2) = length (logged ?u) + length [long_1, short_2]"
    by blast
  then have third: "length (logged (snd (close_all_positions sim_env ?u))) = 2"
    using second by simp
  from first second third show ?thesis by blast
qed

subsection \<open>The webhook parser\<close>

text \<open>
  What each construct of the pattern matches. A successful match splits the text into the
  part the construct took and the rest, on which the continuation succeeded; and any such
  split makes the construct succeed (possibly with another split, tried earlier).
\<close>

lemma rx_lit_Some:
  "(rx_lit p k s = Some r) = (\<exists>rest. s = p @ rest \<and> k rest = Some r)"
  by (induction p k s rule: rx_lit.induct) auto

lemma rx_star_from_SomeD:
  "rx_star_from cls k acc s = Some r \<Longrightarrow>
     \<exists>u rest. s = u @ rest \<and> list_all cls u \<and> k (acc @ u) rest = Some r"
proof (induction s arbitrary: acc)
  case Nil
  then show ?case by simp
next
  case (Cons c cs)
  show ?case
  proof (cases "cls c \<and> rx_star_from cls k (acc @ [c]) cs \<noteq> None")
    case True
    with Cons.prems have "rx_star_from cls k (acc @ [c]) cs = Some r"
      by auto
    from Cons.IH [OF this] obtain u rest
      where "cs = u @ rest" "list_all cls u" "k ((acc @ [c]) @ u) rest = Some r"
      by blast
    with True have "c # cs = (c # u) @ rest \<and> list_all cls (c # u) \<and> k (acc @ c # u) rest = Some r"
      by simp
    then show ?thesis by blast
  next
    case False
    with Cons.prems have "k (acc @ []) (c # cs) = Some r"
      by (auto split: if_splits option.splits)
    then have "c # cs = [] @ c # cs \<and> list_all cls [] \<and> k (acc @ []) (c # cs) = Some r"
      by simp
    then show ?thesis by blast
  qed
qed

lemma rx_star_from_SomeI:
  "list_all cls u \<Longrightarrow> k (acc @ u) rest = Some r \<Longrightarrow>
     \<exists>r'. rx_star_from cls k acc (u @ rest) = Some r'"
proof (induction u arbitrary: acc)
  case Nil
  then show ?case by (cases rest) (auto split: option.splits)
next
  case (Cons c u)
  from Cons.prems have "list_all cls u" "k ((acc @ [c]) @ u) rest = Some r" "cls c"
    by simp_all
  from Cons.IH [OF this(1,2)] this(3) show ?case by auto
qed

lemma rx_star_SomeD:
  "rx_star cls k s = Some r \<Longrightarrow> \<exists>u rest. s = u @ rest \<and> list_all cls u \<and> k u rest = Some r"
  using rx_star_from_SomeD [of cls k "[]" s r] by (simp add: rx_star_def)

lemma rx_star_SomeI:
  "list_all cls u \<Longrightarrow> k u rest = Some r \<Longrightarrow> \<exists>r'. rx_star cls k (u @ rest) = Some r'"
  using rx_star_from_SomeI [of cls u k "[]" rest r] by (simp add: rx_star_def)

lemma rx_plus_SomeD:
  assumes "rx_plus cls k s = Some r"
  shows "\<exists>u rest. s = u @ rest \<and> u \<noteq> [] \<and> list_all cls u \<and> k u rest = Some r"
proof -
  from assms obtain c cs where s: "s = c # cs" "cls c" "rx_star_from cls k [c] cs = Some r"
    by (auto simp: rx_plus_def split: list.splits if_splits)
  from rx_star_from_SomeD [OF s(3)] obtain u rest
    where "cs = u @ rest" "list_all cls u" "k ([c] @ u) rest = Some r"
    by blast
  with s have "s = (c # u) @ rest \<and> c # u \<noteq> [] \<and> list_all cls (c # u) \<and> k (c # u) rest = Some r"
    by simp
  then show ?thesis by blast
qed

lemma rx_plus_SomeI:
  assumes "u \<noteq> []" and "list_all cls u" and "k u rest = Some r"
  shows "\<exists>r'. rx_plus cls k (u @ rest) = Some r'"
proof -
  from assms(1) obtain c u' where u: "u = c # u'" by (cases u) auto
  with assms have "list_all cls u'" "k ([c] @ u') rest = Some r" "cls c" by simp_all
  from rx_star_from_SomeI [of cls u' k "[c]" rest r, OF this(1,2)] this(3) u show ?thesis
    by (simp add: rx_plus_def)
qed

lemma rx_opt_total:
  "(\<And>g5 rest. \<exists>r. k g5 rest = Some r) \<Longrightarrow> \<exists>r. rx_opt g k s = Some r"
  by (cases "g (\<lambda>txt. k (Some txt)) s") (simp_all add: rx_opt_def)

lemma rx_lit_app: "rx_lit p k (p @ rest) = k rest"
  by (induction p) auto

lemma rx_opt_SomeD:
  "rx_opt g k s = Some r \<Longrightarrow> g (\<lambda>txt. k (Some txt)) s = Some r \<or> k None s = Some r"
  by (cases "g (\<lambda>txt. k (Some txt)) s") (simp_all add: rx_opt_def)

lemma word_digits_SomeD:
  assumes "word_digits k s = Some r"
  shows "\<exists>w d rest. s = w @ ''_'' @ d @ rest \<and> w \<noteq> [] \<and> list_all is_word w \<and>
           d \<noteq> [] \<and> list_all is_digit d \<and> k (w @ ''_'' @ d) rest = Some r"
proof -
  from rx_plus_SomeD [OF assms [unfolded word_digits_def]] obtain w s1
    where w: "s = w @ s1" "w \<noteq> []" "list_all is_word w"
    and m1: "rx_lit ''_'' (rx_plus is_digit (\<lambda>d. k (w @ ''_'' @ d))) s1 = Some r"
    by blast
  from m1 [unfolded rx_lit_Some] obtain s2 where s2: "s1 = ''_'' @ s2"
    and m2: "rx_plus is_digit (\<lambda>d. k (w @ ''_'' @ d)) s2 = Some r"
    by blast
  from rx_plus_SomeD [OF m2] obtain d rest
    where d: "s2 = d @ rest" "d \<noteq> []" "list_all is_digit d" "k (w @ ''_'' @ d) rest = Some r"
    by blast
  from w s2 d have "s = w @ ''_'' @ d @ rest \<and> w \<noteq> [] \<and> list_all is_word w \<and>
           d \<noteq> [] \<and> list_all is_digit d \<and> k (w @ ''_'' @ d) rest = Some r"
    by simp
  then show ?thesis by blast
qed

text \<open>The groups of a successful match, and the shape of the text that was matched.\<close>

lemma re_match_SomeD:
  assumes "re_match s = Some signal"
  shows "\<exists>rest.
           s = ''action='' @ action signal @ '';symbol='' @ symbol signal @ '';volume=''
                 @ volume signal @ '';open_position='' @ open_position signal
                 @ '';position_closed='' @ rest \<and>
           action signal \<noteq> [] \<and> list_all is_word (action signal) \<and>
           symbol signal \<noteq> [] \<and> list_all is_word_or_slash (symbol signal) \<and>
           list_all is_dot (volume signal) \<and> list_all is_dot (open_position signal) \<and>
           position_closed signal \<noteq> Some []"
proof -
  from assms [unfolded re_match_def rx_lit_Some]
  obtain s1 where s1: "s = ''action='' @ s1"
    and m1: "rx_plus is_word (\<lambda>g1.
       rx_lit '';symbol='' (rx_plus is_word_or_slash (\<lambda>g2.
       rx_lit '';volume='' (rx_star is_dot (\<lambda>g3.
       rx_lit '';open_position='' (rx_star is_dot (\<lambda>g4.
       rx_lit '';position_closed='' (rx_opt word_digits (\<lambda>g5 rest.
         Some \<lparr>action = g1, symbol = g2, volume = g3, open_position = g4,
                position_closed = g5\<rparr>))))))))) s1 = Some signal"
    by blast
  from rx_plus_SomeD [OF m1] obtain g1 s2 where g1: "s1 = g1 @ s2" "g1 \<noteq> []" "list_all is_word g1"
    and m2: "rx_lit '';symbol='' (rx_plus is_word_or_slash (\<lambda>g2.
       rx_lit '';volume='' (rx_star is_dot (\<lambda>g3.
       rx_lit '';open_position='' (rx_star is_dot (\<lambda>g4.
       rx_lit '';position_closed='' (rx_opt word_digits (\<lambda>g5 rest.
         Some \<lparr>action = g1, symbol = g2, volume = g3, open_position = g4,
                position_closed = g5\<rparr>)))))))) s2 = Some signal"
    by blast
  from m2 [unfolded rx_lit_Some] obtain s3 where s3: "s2 = '';symbol='' @ s3"
    and m3: "rx_plus is_word_or_slash (\<lambda>g2.
       rx_lit '';volume='' (rx_star is_dot (\<lambda>g3.
       rx_lit '';open_position='' (rx_star is_dot (\<lambda>g4.
       rx_lit '';position_closed='' (rx_opt word_digits (\<lambda>g5 rest.
         Some \<lparr>action = g1, symbol = g2, volume = g3, open_position = g4,
                position_closed = g5\<rparr>))))))) s3 = Some signal"
    by blast
  from rx_plus_SomeD [OF m3] obtain g2 s4 where g2: "s3 = g2 @ s4" "g2 \<noteq> []"
      "list_all is_word_or_slash g2"
    and m4: "rx_lit '';volume='' (rx_star is_dot (\<lambda>g3.
       rx_lit '';open_position='' (rx_star is_dot (\<lambda>g4.
       rx_lit '';position_closed='' (rx_opt word_digits (\<lambda>g5 rest.
         Some \<lparr>action = g1, symbol = g2, volume = g3, open_position = g4,
                position_closed = g5\<rparr>)))))) s4 = Some signal"
    by blast
  from m4 [unfolded rx_lit_Some] obtain s5 where s5: "s4 = '';volume='' @ s5"
    and m5: "rx_star is_dot (\<lambda>g3.
       rx_lit '';open_position='' (rx_star is_dot (\<lambda>g4.
       rx_lit '';position_closed='' (rx_opt word_digits (\<lambda>g5 rest.
         Some \<lparr>action = g1, symbol = g2, volume = g3, open_position = g4,
                position_closed = g5\<rparr>))))) s5 = Some signal"
    by blast
  from rx_star_SomeD [OF m5] obtain g3 s6 where g3: "s5 = g3 @ s6" "list_all is_dot g3"
    and m6: "rx_lit '';open_position='' (rx_star is_dot (\<lambda>g4.
       rx_lit '';position_closed='' (rx_opt word_digits (\<lambda>g5 rest.
         Some \<lparr>action = g1, symbol = g2, volume = g3, open_position = g4,
                position_closed = g5\<rparr>)))) s6 = Some signal"
    by blast
  from m6 [unfolded rx_lit_Some] obtain s7 where s7: "s6 = '';open_position='' @ s7"
    and m7: "rx_star is_dot (\<lambda>g4.
       rx_lit '';position_closed='' (rx_opt word_digits (\<lambda>g5 rest.
         Some \<lparr>action = g1, symbol = g2, volume = g3, open_position = g4,
                position_closed = g5\<rparr>))) s7 = Some signal"
    by blast
  from rx_star_SomeD [OF m7] obtain g4 s8 where g4: "s7 = g4 @ s8" "list_all is_dot g4"
    and m8: "rx_lit '';position_closed='' (rx_opt word_digits (\<lambda>g5 rest.
         Some \<lparr>action = g1, symbol = g2, volume = g3, open_position = g4,
                position_closed = g5\<rparr>)) s8 = Some signal"
    by blast
  from m8 [unfolded rx_lit_Some] obtain s9 where s9: "s8 = '';position_closed='' @ s9"
    and m9: "rx_opt word_digits (\<lambda>g5 rest.
         Some \<lparr>action = g1, symbol = g2, volume = g3, open_position = g4,
                position_closed = g5\<rparr>) s9 = Some signal"
    by blast
  from rx_opt_SomeD [OF m9] have fields: "action signal = g1 \<and> symbol signal = g2 \<and>
      volume signal = g3 \<and> open_position signal = g4 \<and> position_closed signal \<noteq> Some []"
  proof
    assume "word_digits (\<lambda>txt rest.
         Some \<lparr>action = g1, symbol = g2, volume = g3, open_position = g4,
                position_closed = Some txt\<rparr>) s9 = Some signal"
    from word_digits_SomeD [OF this] show ?thesis by auto
  next
    assume "Some \<lparr>action = g1, symbol = g2, volume = g3, open_position = g4,
                position_closed = None\<rparr> = Some signal"
    then show ?thesis by auto
  qed
  with s1 g1 s3 g2 s5 g3 s7 g4 s9 show ?thesis by simp
qed

text \<open>Every text of that shape is matched.\<close>

lemma re_match_SomeI:
  assumes "a \<noteq> []" and "list_all is_word a" and "sy \<noteq> []" and "list_all is_word_or_slash sy"
      and "list_all is_dot v" and "list_all is_dot tag"
  shows "\<exists>signal. re_match (''action='' @ a @ '';symbol='' @ sy @ '';volume='' @ v
            @ '';open_position='' @ tag @ '';position_closed='' @ rest) = Some signal"
proof -
  have k5: "\<exists>r. rx_opt word_digits (\<lambda>g5 rest.
         Some \<lparr>action = g1, symbol = g2, volume = g3, open_position = g4,
                position_closed = g5\<rparr>) rest = Some r" for g1 g2 g3 g4
    by (rule rx_opt_total) simp
  have k4: "\<exists>r. rx_star is_dot (\<lambda>g4.
       rx_lit '';position_closed='' (rx_opt word_digits (\<lambda>g5 rest.
         Some \<lparr>action = g1, symbol = g2, volume = g3, open_position = g4,
                position_closed = g5\<rparr>))) (tag @ '';position_closed='' @ rest) = Some r"
    for g1 g2 g3
  proof -
    from k5 [of g1 g2 g3 tag] obtain r where "rx_lit '';position_closed='' (rx_opt word_digits (\<lambda>g5 rest.
         Some \<lparr>action = g1, symbol = g2, volume = g3, open_position = tag,
                position_closed = g5\<rparr>)) ('';position_closed='' @ rest) = Some r"
      unfolding rx_lit_app by blast
    from rx_star_SomeI [OF assms(6), where k = "\<lambda>g4.
       rx_lit '';position_closed='' (rx_opt word_digits (\<lambda>g5 rest.
         Some \<lparr>action = g1, symbol = g2, volume = g3, open_position = g4,
                position_closed = g5\<rparr>))", OF this]
    show ?thesis .
  qed
  have k3: "\<exists>r. rx_star is_dot (\<lambda>g3.
       rx_lit '';open_position='' (rx_star is_dot (\<lambda>g4.
       rx_lit '';position_closed='' (rx_opt word_digits (\<lambda>g5 rest.
         Some \<lparr>action = g1, symbol = g2, volume = g3, open_position = g4,
                position_closed = g5\<rparr>)))))
       (v @ '';open_position='' @ tag @ '';position_closed='' @ rest) = Some r"
    for g1 g2
  proof -
    from k4 [of g1 g2 v] obtain r where "rx_lit '';open_position='' (rx_star is_dot (\<lambda>g4.
       rx_lit '';position_closed='' (rx_opt word_digits (\<lambda>g5 rest.
         Some \<lparr>action = g1, symbol = g2, volume = v, open_position = g4,
                position_closed = g5\<rparr>))))
       ('';open_position='' @ tag @ '';position_closed='' @ rest) = Some r"
      unfolding rx_lit_app by blast
    from rx_star_SomeI [OF assms(5), where k = "\<lambda>g3.
       rx_lit '';open_position='' (rx_star is_dot (\<lambda>g4.
       rx_lit '';position_closed='' (rx_opt word_digits (\<lambda>g5 rest.
         Some \<lparr>action = g1, symbol = g2, volume = g3, open_position = g4,
                position_closed = g5\<rparr>))))", OF this]
    show ?thesis .
  qed
  have k2: "\<exists>r. rx_plus is_word_or_slash (\<lambda>g2.
       rx_lit '';volume='' (rx_star is_dot (\<lambda>g3.
       rx_lit '';open_position='' (rx_star is_dot (\<lambda>g4.
       rx_lit '';position_closed='' (rx_opt word_digits (\<lambda>g5 rest.
         Some \<lparr>action = g1, symbol = g2, volume = g3, open_position = g4,
                position_closed = g5\<rparr>)))))))
       (sy @ '';volume='' @ v @ '';open_position='' @ tag @ '';position_closed='' @ rest) = Some r"
    for g1
  proof -
    from k3 [of g1 sy] obtain r where "rx_lit '';volume='' (rx_star is_dot (\<lambda>g3.
       rx_lit '';open_position='' (rx_star is_dot (\<lambda>g4.
       rx_lit '';position_closed='' (rx_opt word_digits (\<lambda>g5 rest.
         Some \<lparr>action = g1, symbol = sy, volume = g3, open_position = g4,
                position_closed = g5\<rparr>))))))
       ('';volume='' @ v @ '';open_position='' @ tag @ '';position_closed='' @ rest) = Some r"
      unfolding rx_lit_app by blast
    from rx_plus_SomeI [OF assms(3,4), where k = "\<lambda>g2.
       rx_lit '';volume='' (rx_star is_dot (\<lambda>g3.
       rx_lit '';open_position='' (rx_star is_dot (\<lambda>g4.
       rx_lit '';position_closed='' (rx_opt word_digits (\<lambda>g5 rest.
         Some \<lparr>action = g1, symbol = g2, volume = g3, open_position = g4,
                position_closed = g5\<rparr>))))))", OF this]
    show ?thesis .
  qed
  from k2 [of a] obtain r where "rx_lit '';symbol='' (rx_plus is_word_or_slash (\<lambda>g2.
       rx_lit '';volume='' (rx_star is_dot (\<lambda>g3.
       rx_lit '';open_position='' (rx_star is_dot (\<lambda>g4.
       rx_lit '';position_closed='' (rx_opt word_digits (\<lambda>g5 rest.
         Some \<lparr>action = a, symbol = g2, volume = g3, open_position = g4,
                position_closed = g5\<rparr>))))))))
       ('';symbol='' @ sy @ '';volume='' @ v @ '';open_position='' @ tag @ '';position_closed='' @ rest)
         = Some r"
    unfolding rx_lit_app by blast
  from rx_plus_SomeI [OF assms(1,2), where k = "\<lambda>g1.
       rx_lit '';symbol='' (rx_plus is_word_or_slash (\<lambda>g2.
       rx_lit '';volume='' (rx_star is_dot (\<lambda>g3.
       rx_lit '';open_position='' (rx_star is_dot (\<lambda>g4.
       rx_lit '';position_closed='' (rx_opt word_digits (\<lambda>g5 rest.
         Some \<lparr>action = g1, symbol = g2, volume = g3, open_position = g4,
                position_closed = g5\<rparr>))))))))", OF this]
  show ?thesis
    unfolding re_match_def rx_lit_app .
qed

lemma re_match_iff: "(\<exists>signal. re_match s = Some signal) = matches_grammar s"
proof
  assume "\<exists>signal. re_match s = Some signal"
  then obtain signal where "re_match s = Some signal" ..
  from re_match_SomeD [OF this] show "matches_grammar s"
    unfolding matches_grammar_def by blast
next
  assume "matches_grammar s"
  then show "\<exists>signal. re_match s = Some signal"
    unfolding matches_grammar_def using re_match_SomeI by blast
qed

text \<open>
  C6, as the code has it. \<^verbatim>\<open>from_webhook\<close> raises \<^verbatim>\<open>ValueError("Invalid webhook data")\<close>
  exactly for the payloads that do not conform to the grammar, and returns a signal
  exactly for those that do. The key \<^verbatim>\<open>position_closed=\<close> is part of the grammar: only its
  value is optional.
\<close>

theorem from_webhook_rejects_exactly_non_matching:
  "(from_webhook payload = Inl (ValueError ''Invalid webhook data'')) = (\<not> matches_grammar payload) \<and>
   (\<exists>signal. from_webhook payload = Inr signal) = matches_grammar payload"
  using re_match_iff [of payload]
  by (cases "re_match payload") (auto simp: from_webhook_def)

text \<open>The definitions that a concrete run of the matcher unfolds.\<close>

lemmas regex_eval = from_webhook_def re_match_def rx_plus_def rx_star_def rx_opt_def
  word_digits_def is_word_def is_alnum_def is_digit_def is_word_or_slash_def
  is_dot_def

text \<open>
  C6 as stated fails: a payload in which the field \<^verbatim>\<open>position_closed\<close> is entirely absent
  is rejected.
\<close>

theorem from_webhook_without_position_closed_counterexample:
  "from_webhook ''action=buy;symbol=EURUSD;volume=1.0;open_position=Long_1'' =
     Inl (ValueError ''Invalid webhook data'')"
  by (simp add: regex_eval)

text \<open>
  The payload of the scenario, with an empty \<^verbatim>\<open>position_closed=\<close>, conforms and is parsed;
  the same payload without the key does not conform; and a payload whose action is the
  single letter e with an acute accent (code point 233, a word character) conforms and is
  parsed.
\<close>

theorem from_webhook_rejects_exactly_non_matching_witness:
  "from_webhook ''action=buy;symbol=EURUSD;volume=1.0;open_position=Long_1;position_closed='' =
     Inr buy_signal \<and>
   matches_grammar ''action=buy;symbol=EURUSD;volume=1.0;open_position=Long_1;position_closed='' \<and>
   \<not> matches_grammar ''action=buy;symbol=EURUSD;volume=1.0;open_position=Long_1'' \<and>
   from_webhook (''action='' @ [CHR 0xE9] @
       '';symbol=EURUSD;volume=1.0;open_position=Long_1;position_closed='') =
     Inr \<lparr>action = [CHR 0xE9], symbol = ''EURUSD'', volume = ''1.0'',
          open_position = ''Long_1'', position_closed = None\<rparr> \<and>
   matches_grammar (''action='' @ [CHR 0xE9] @
       '';symbol=EURUSD;volume=1.0;open_position=Long_1;position_closed='')"
proof -
  have a: "from_webhook ''action=buy;symbol=EURUSD;volume=1.0;open_position=Long_1;position_closed='' =
     Inr buy_signal"
    by (simp add: regex_eval buy_signal_def)
  have b: "from_webhook ''action=buy;symbol=EURUSD;volume=1.0;open_position=Long_1'' =
     Inl (ValueError ''Invalid webhook data'')"
    by (simp add: regex_eval)
  have e: "from_webhook (''action='' @ [CHR 0xE9] @
       '';symbol=EURUSD;volume=1.0;open_position=Long_1;position_closed='') =
     Inr \<lparr>action = [CHR 0xE9], symbol = ''EURUSD'', volume = ''1.0'',
          open_position = ''Long_1'', position_closed = None\<rparr>"
    by (simp add: regex_eval)
  from a from_webhook_rejects_exactly_non_matching
      [of "''action=buy;symbol=EURUSD;volume=1.0;open_position=Long_1;position_closed=''"]
  have c: "matches_grammar ''action=buy;symbol=EURUSD;volume=1.0;open_position=Long_1;position_closed=''"
    by blast
  from b from_webhook_rejects_exactly_non_matching
      [of "''action=buy;symbol=EURUSD;volume=1.0;open_position=Long_1''"]
  have d: "\<not> matches_grammar ''action=buy;symbol=EURUSD;volume=1.0;open_position=Long_1''"
    by blast
  from e from_webhook_rejects_exactly_non_matching
      [of "''action='' @ [CHR 0xE9] @
       '';symbol=EURUSD;volume=1.0;open_position=Long_1;position_closed=''"]
  have f: "matches_grammar (''action='' @ [CHR 0xE9] @
       '';symbol=EURUSD;volume=1.0;open_position=Long_1;position_closed='')"
    by blast
  from a c d e f show ?thesis by blast
qed

text \<open>
  C8, as the code has it. For an accepted payload with signal \<open>signal\<close>, after
  \<^verbatim>\<open>normalize_action\<close>:
  \<^item> the action is \<^verbatim>\<open>BUY\<close> when the action of the payload, in lower case, is
    \<^verbatim>\<open>enter_long\<close> or \<^verbatim>\<open>buy\<close>; it is \<^verbatim>\<open>SELL\<close> when that is \<^verbatim>\<open>enter_short\<close> or \<^verbatim>\<open>sell\<close>; and
    it is the action of the payload, unchanged, in every other case (so \<^verbatim>\<open>close\<close> is not
    made \<^verbatim>\<open>CLOSE\<close>);
  \<^item> the action of the payload is a non-empty word;
  \<^item> the symbol is that of the payload, a non-empty run of word characters and slashes;
  \<^item> the volume is the text of the payload's field, any text within the line, and the two
    tags are those of the payload.
\<close>

theorem normalized_signal_fields:
  assumes "from_webhook payload = Inr signal"
  shows "(lower (action signal) = ''enter_long'' \<or> lower (action signal) = ''buy'' \<longrightarrow>
            action (normalize_action signal) = ''BUY'') \<and>
         (lower (action signal) = ''enter_short'' \<or> lower (action signal) = ''sell'' \<longrightarrow>
            action (normalize_action signal) = ''SELL'') \<and>
         (lower (action signal) \<noteq> ''enter_long'' \<and> lower (action signal) \<noteq> ''buy'' \<and>
          lower (action signal) \<noteq> ''enter_short'' \<and> lower (action signal) \<noteq> ''sell'' \<longrightarrow>
            action (normalize_action signal) = action signal) \<and>
         action signal \<noteq> [] \<and> list_all is_word (action signal) \<and>
         symbol (normalize_action signal) = symbol signal \<and>
         symbol signal \<noteq> [] \<and> list_all is_word_or_slash (symbol signal) \<and>
         volume (normalize_action signal) = volume signal \<and>
         list_all is_dot (volume signal) \<and>
         open_position (normalize_action signal) = open_position signal \<and>
         position_closed (normalize_action signal) = position_closed signal"
proof -
  from assms have "re_match payload = Some signal"
    by (auto simp: from_webhook_def split: option.splits)
  from re_match_SomeD [OF this]
  have "action signal \<noteq> [] \<and> list_all is_word (action signal) \<and>
        symbol signal \<noteq> [] \<and> list_all is_word_or_slash (symbol signal) \<and>
        list_all is_dot (volume signal)"
    by blast
  then show ?thesis
    by (simp add: normalize_action_def)
qed

text \<open>
  C8 as stated fails: the payload with action \<^verbatim>\<open>close\<close> and volume \<^verbatim>\<open>-1\<close> is accepted,
  and after normalisation its action is still \<^verbatim>\<open>close\<close>, none of the three canonical
  values, and its volume still the text \<^verbatim>\<open>-1\<close>.
\<close>

theorem normalized_signal_not_canonical_counterexample:
  "from_webhook ''action=close;symbol=EURUSD;volume=-1;open_position=Long_1;position_closed='' =
     Inr \<lparr>action = ''close'', symbol = ''EURUSD'', volume = ''-1'',
          open_position = ''Long_1'', position_closed = None\<rparr> \<and>
   normalize_action \<lparr>action = ''close'', symbol = ''EURUSD'', volume = ''-1'',
                      open_position = ''Long_1'', position_closed = None\<rparr> =
     \<lparr>action = ''close'', symbol = ''EURUSD'', volume = ''-1'',
      open_position = ''Long_1'', position_closed = None\<rparr> \<and>
   ''close'' \<notin> set [''BUY'', ''SELL'', ''CLOSE'']"
  by (simp add: regex_eval normalize_action_def lower_def lower_char_def)

text \<open>
  The action \<^verbatim>\<open>Enter_Long\<close> becomes \<^verbatim>\<open>BUY\<close> and the symbol \<^verbatim>\<open>EUR/USD\<close> is kept; the action
  \<^verbatim>\<open>Sell\<close> becomes \<^verbatim>\<open>SELL\<close>; the action \<^verbatim>\<open>hold\<close> stays \<^verbatim>\<open>hold\<close>.
\<close>

theorem normalized_signal_fields_witness:
  "from_webhook ''action=Enter_Long;symbol=EUR/USD;volume=0.5;open_position=Long_7;position_closed=Short_3'' =
     Inr \<lparr>action = ''Enter_Long'', symbol = ''EUR/USD'', volume = ''0.5'',
          open_position = ''Long_7'', position_closed = Some ''Short_3''\<rparr> \<and>
   action (normalize_action \<lparr>action = ''Enter_Long'', symbol = ''EUR/USD'', volume = ''0.5'',
          open_position = ''Long_7'', position_closed = Some ''Short_3''\<rparr>) = ''BUY'' \<and>
   symbol (normalize_action \<lparr>action = ''Enter_Long'', symbol = ''EUR/USD'', volume = ''0.5'',
          open_position = ''Long_7'', position_closed = Some ''Short_3''\<rparr>) = ''EUR/USD'' \<and>
   from_webhook ''action=Sell;symbol=EURUSD;volume=1.0;open_position=Short_1;position_closed='' =
     Inr \<lparr>action = ''Sell'', symbol = ''EURUSD'', volume = ''1.0'',
          open_position = ''Short_1'', position_closed = None\<rparr> \<and>
   action (normalize_action \<lparr>action = ''Sell'', symbol = ''EURUSD'', volume = ''1.0'',
          open_position = ''Short_1'', position_closed = None\<rparr>) = ''SELL'' \<and>
   from_webhook ''action=hold;symbol=EURUSD;volume=1.0;open_position=Long_1;position_closed='' =
     Inr \<lparr>action = ''hold'', symbol = ''EURUSD'', volume = ''1.0'',
          open_position = ''Long_1'', position_closed = None\<rparr> \<and>
   action (normalize_action \<lparr>action = ''hold'', symbol = ''EURUSD'', volume = ''1.0'',
          open_position = ''Long_1'', position_closed = None\<rparr>) = ''hold''"
proof -
  let ?s1 = "\<lparr>action = ''Enter_Long'', symbol = ''EUR/USD'', volume = ''0.5'',
          open_position = ''Long_7'', position_closed = Some ''Short_3''\<rparr>"
  let ?s2 = "\<lparr>action = ''Sell'', symbol = ''EURUSD'', volume = ''1.0'',
          open_position = ''Short_1'', position_closed = None\<rparr>"
  let ?s3 = "\<lparr>action = ''hold'', symbol = ''EURUSD'', volume = ''1.0'',
          open_position = ''Long_1'', position_closed = None\<rparr>"
  have a1: "from_webhook ''action=Enter_Long;symbol=EUR/USD;volume=0.5;open_position=Long_7;position_closed=Short_3'' =
     Inr ?s1"
    by (simp add: regex_eval)
  have a2: "from_webhook ''action=Sell;symbol=EURUSD;volume=1.0;open_position=Short_1;position_closed='' =
     Inr ?s2"
    by (simp add: regex_eval)
  have a3: "from_webhook ''action=hold;symbol=EURUSD;volume=1.0;open_position=Long_1;position_closed='' =
     Inr ?s3"
    by (simp add: regex_eval)
  have l1: "lower (action ?s1) = ''enter_long''"
    by code_simp
  have l2: "lower (action ?s2) = ''sell''"
    by code_simp
  have l3: "lower (action ?s3) = ''hold''"
    by code_simp
  from normalized_signal_fields [OF a1] l1
  have b1: "action (normalize_action ?s1) = ''BUY'' \<and> symbol (normalize_action ?s1) = ''EUR/USD''"
    by simp
  from normalized_signal_fields [OF a2] l2
  have b2: "action (normalize_action ?s2) = ''SELL''"
    by simp
  from normalized_signal_fields [OF a3] l3
  have b3: "action (normalize_action ?s3) = ''hold''"
    by simp
  from a1 a2 a3 b1 b2 b3 show ?thesis by blast
qed

end
